theory Spec2Isabelle
  imports Complex_Main "HOL-Library.Sublist" "HOL-Library.Log_Nat"
begin

section \<open>Python values\<close>

text \<open>
  A Python \<open>str\<close> is a sequence of Unicode code points, so slicing, \<open>in\<close>, \<open>startswith\<close> and
  \<open>rstrip\<close> count code points as the interpreter does. ASCII literals of the source are
  written \<open>ascii ''...''\<close>, every other literal as its list of code points. \<open>bytes\<close> are
  lists of 8-bit characters.
\<close>

type_synonym ustr = "nat list"

type_synonym bytes = "char list"

definition ascii :: "string \<Rightarrow> ustr" where
  "ascii s = map of_char s"

text \<open>
  A dictionary entry read with \<open>d.get(key)\<close>: the key is absent, or holds \<open>None\<close>, or holds a
  value. \<open>d.get(key, default)\<close> replaces only the absent key; \<open>x or default\<close> replaces every
  falsy value.
\<close>

datatype 'a field = Missing | Null | Val 'a

definition get_or :: "'a field \<Rightarrow> 'a \<Rightarrow> 'a field" where
  "get_or f d = (case f of Missing \<Rightarrow> Val d | Null \<Rightarrow> Null | Val v \<Rightarrow> Val v)"

definition truthy :: "ustr field \<Rightarrow> bool" where
  "truthy f = (case f of Val s \<Rightarrow> s \<noteq> [] | _ \<Rightarrow> False)"

definition truthy_opt :: "'a list option \<Rightarrow> bool" where
  "truthy_opt x = (case x of Some s \<Rightarrow> s \<noteq> [] | None \<Rightarrow> False)"

definition str_or :: "ustr option \<Rightarrow> ustr \<Rightarrow> ustr" where
  "str_or x d = (case x of Some s \<Rightarrow> (if s \<noteq> [] then s else d) | None \<Rightarrow> d)"

subsection \<open>Integers and amounts as text\<close>

text \<open>
  \<open>format_amount\<close> reads its argument through comparison, \<open>int()\<close> and the \<open>.2f\<close> format,
  which depend only on the exact value of the number: every \<open>int\<close> and every finite \<open>float\<close>
  is a rational, so the formatter is modelled exactly on that value (\<open>nan\<close> and \<open>inf\<close>, on
  which \<open>int()\<close> raises, are not amounts).
\<close>

fun str_nat :: "nat \<Rightarrow> ustr" where
  "str_nat n = (if n < 10 then [48 + n] else str_nat (n div 10) @ [48 + n mod 10])"

declare str_nat.simps [simp del]

definition str_int :: "int \<Rightarrow> ustr" where
  "str_int i = (if i < 0 then 45 # str_nat (nat (- i)) else str_nat (nat i))"

text \<open>\<open>int(x)\<close> truncates towards zero.\<close>

definition py_int :: "rat \<Rightarrow> int" where
  "py_int x = (if x < 0 then - \<lfloor>- x\<rfloor> else \<lfloor>x\<rfloor>)"

definition round_half_even :: "rat \<Rightarrow> int" where
  "round_half_even r =
     (let f = \<lfloor>r\<rfloor>; d = r - of_int f
      in if d < 1 / 2 then f else if 1 / 2 < d then f + 1 else if even f then f else f + 1)"

text \<open>
  \<open>f"{x:.2f}"\<close>: the exact value rounded to hundredths, ties to even, with the sign of \<open>x\<close>
  kept also when the digits are all zero.
\<close>

definition format_2f :: "rat \<Rightarrow> ustr" where
  "format_2f x =
     (let n = nat (round_half_even (\<bar>x\<bar> * 100))
      in (if x < 0 then [45] else []) @ str_nat (n div 100) @ [46] @
         [48 + n mod 100 div 10, 48 + n mod 10])"

definition rstrip :: "ustr \<Rightarrow> ustr \<Rightarrow> ustr" where
  "rstrip chars s = rev (dropWhile (\<lambda>c. c \<in> set chars) (rev s))"

definition format_amount :: "rat \<Rightarrow> ustr" where
  "format_amount amount =
     (if amount = of_int (py_int amount) then str_int (py_int amount)
      else rstrip (ascii ''.'') (rstrip (ascii ''0'') (format_2f amount)))"

text \<open>
  The formatter as the specification words it: an amount with no fractional part is its
  integer rendering; any other amount is rendered with two fractional digits, from which
  trailing zeros and then a trailing separator are removed.
\<close>

definition format_amount_spec :: "rat \<Rightarrow> ustr" where
  "format_amount_spec x =
     (if frac x = 0 then str_int \<lfloor>x\<rfloor>
      else let c = nat (round_half_even (\<bar>x\<bar> * 100));
               whole = (if x < 0 then [45] else []) @ str_nat (c div 100)
           in if c mod 100 = 0 then whole
              else if c mod 10 = 0 then whole @ [46, 48 + c mod 100 div 10]
              else whole @ [46, 48 + c mod 100 div 10, 48 + c mod 10])"

subsection \<open>Arithmetic on amounts\<close>

text \<open>
  A number of an order is a Python \<open>int\<close>, of any size, or a \<open>float\<close>: an IEEE 754 double,
  given by its exact value (the two zeros of the doubles are one value: they compare equal,
  are both falsy and both print as \<open>0\<close>). \<open>fl\<close> rounds a rational to the nearest double,
  ties to the even significand: 53 significant bits, and multiples of \<open>2^-1074\<close> in the
  subnormal range. Results beyond the largest double, where Python gives \<open>inf\<close>, are outside
  the model.
\<close>

datatype pynum = PyInt int | PyFloat rat

definition num_value :: "pynum \<Rightarrow> rat" where
  "num_value n = (case n of PyInt i \<Rightarrow> of_int i | PyFloat x \<Rightarrow> x)"

definition pow2 :: "int \<Rightarrow> rat" where
  "pow2 e = (if 0 \<le> e then 2 ^ nat e else 1 / 2 ^ nat (- e))"

text \<open>The exponent of a positive rational: the \<open>e\<close> with \<open>2^e \<le> x < 2^(e+1)\<close>.\<close>

definition ilog2 :: "rat \<Rightarrow> int" where
  "ilog2 x =
     (case quotient_of x of
        (p, q) \<Rightarrow> let e = bitlen p - bitlen q in if pow2 e \<le> x then e else e - 1)"

definition fl :: "rat \<Rightarrow> rat" where
  "fl x =
     (if x = 0 then 0
      else let e = max (ilog2 \<bar>x\<bar> - 52) (- 1074);
               m = round_half_even (\<bar>x\<bar> / pow2 e)
           in (if x < 0 then - 1 else 1) * of_int m * pow2 e)"

text \<open>
  \<open>+\<close>, \<open>-\<close> and \<open>*\<close>: exact on two \<open>int\<close>s; otherwise an \<open>int\<close> operand is converted to the
  nearest double and the exact result of the operation is rounded.
\<close>

definition to_float :: "pynum \<Rightarrow> rat" where
  "to_float n = (case n of PyInt i \<Rightarrow> fl (of_int i) | PyFloat x \<Rightarrow> x)"

definition py_add :: "pynum \<Rightarrow> pynum \<Rightarrow> pynum" where
  "py_add a b =
     (case (a, b) of
        (PyInt i, PyInt j) \<Rightarrow> PyInt (i + j)
      | _ \<Rightarrow> PyFloat (fl (to_float a + to_float b)))"

definition py_sub :: "pynum \<Rightarrow> pynum \<Rightarrow> pynum" where
  "py_sub a b =
     (case (a, b) of
        (PyInt i, PyInt j) \<Rightarrow> PyInt (i - j)
      | _ \<Rightarrow> PyFloat (fl (to_float a - to_float b)))"

definition py_mul :: "pynum \<Rightarrow> pynum \<Rightarrow> pynum" where
  "py_mul a b =
     (case (a, b) of
        (PyInt i, PyInt j) \<Rightarrow> PyInt (i * j)
      | _ \<Rightarrow> PyFloat (fl (to_float a * to_float b)))"

text \<open>
  The built-in \<open>sum\<close> is the interpreter's: CPython up to 3.11 adds from the left, starting
  at the \<open>int\<close> 0 (\<open>sum_plain\<close>); from 3.12 on it adds floats with a compensation term. On
  \<open>int\<close>s and on a single item all agree. The notification is modelled for any such
  function, passed as \<open>py_sum\<close>.
\<close>

type_synonym summation = "pynum list \<Rightarrow> pynum"

definition sum_plain :: summation where
  "sum_plain xs = foldl py_add (PyInt 0) xs"

subsection \<open>String operations\<close>

text \<open>\<open>s[-6:]\<close>: the last six code points, the whole string when it is shorter.\<close>

definition last6 :: "ustr \<Rightarrow> ustr" where
  "last6 s = drop (length s - 6) s"

text \<open>\<open>s[:200]\<close>.\<close>

definition first200 :: "ustr \<Rightarrow> ustr" where
  "first200 s = take 200 s"

text \<open>\<open>phrase in s\<close>: \<open>phrase\<close> occurs in \<open>s\<close> as a contiguous run.\<close>

fun contains :: "ustr \<Rightarrow> ustr \<Rightarrow> bool" where
  "contains p [] = (p = [])"
| "contains p (c # cs) = (prefix p (c # cs) \<or> contains p cs)"

text \<open>
  \<open>str.lower()\<close>, code point by code point. The ASCII capitals and the Latin-1 capitals
  (U+00C0 to U+00DE without the multiplication sign) move up by 32. Beyond U+00FF the
  letters whose lower-case form holds a code point up to U+00FF are: U+0130, which becomes
  \<open>i\<close> followed by U+0307; U+0178, which becomes U+00FF; U+1E9E, which becomes U+00DF; the
  Kelvin sign U+212A, which becomes \<open>k\<close>; the Angstrom sign U+212B, which becomes U+00E5.
  Every other cased letter becomes one code point above U+00FF and is left as it is here.
  So \<open>py_lower s\<close> has the length of \<open>s.lower()\<close> and the same code point wherever either
  holds one up to U+00FF: a test \<open>phrase in s.lower()\<close> or \<open>s.lower() in extensions\<close>
  against ASCII strings has the value the interpreter gives.
\<close>

definition lower_cp :: "nat \<Rightarrow> nat list" where
  "lower_cp c =
     (if 65 \<le> c \<and> c \<le> 90 then [c + 32]
      else if 192 \<le> c \<and> c \<le> 222 \<and> c \<noteq> 215 then [c + 32]
      else if c = 0x130 then [0x69, 0x307]
      else if c = 0x178 then [0xFF]
      else if c = 0x1E9E then [0xDF]
      else if c = 0x212A then [0x6B]
      else if c = 0x212B then [0xE5]
      else [c])"

definition py_lower :: "ustr \<Rightarrow> ustr" where
  "py_lower s = concat (map lower_cp s)"

text \<open>
  \<open>s.replace(old, new)\<close>: the occurrences of \<open>old\<close> found from the left, none overlapping an
  earlier one, each replaced by \<open>new\<close>. With an empty \<open>old\<close> Python puts \<open>new\<close> before every
  code point and at the end.
\<close>

function replace_from :: "ustr \<Rightarrow> ustr \<Rightarrow> ustr \<Rightarrow> ustr" where
  "replace_from old new [] = []"
| "replace_from old new (c # cs) =
     (if old \<noteq> [] \<and> prefix old (c # cs)
      then new @ replace_from old new (drop (length old) (c # cs))
      else c # replace_from old new cs)"
  by pat_completeness auto
termination
  by (relation "measure (\<lambda>(old, new, s). length s)") (auto simp: neq_Nil_conv)

definition py_replace :: "ustr \<Rightarrow> ustr \<Rightarrow> ustr \<Rightarrow> ustr" where
  "py_replace old new s =
     (if old = [] then new @ concat (map (\<lambda>c. c # new) s) else replace_from old new s)"

text \<open>
  \<open>Path(p).suffix\<close> as \<open>pathlib\<close> computes it for a POSIX path (Python 3.12): the name is the
  last component that is neither empty nor \<open>.\<close>; its suffix starts at its last dot, when that
  dot is neither the first nor the last code point of the name.
\<close>

fun split_slash :: "ustr \<Rightarrow> ustr list" where
  "split_slash [] = [[]]"
| "split_slash (c # cs) =
     (if c = 47 then [] # split_slash cs
      else (case split_slash cs of [] \<Rightarrow> [[c]] | w # ws \<Rightarrow> (c # w) # ws))"

definition path_name :: "ustr \<Rightarrow> ustr" where
  "path_name p =
     (case filter (\<lambda>w. w \<noteq> [] \<and> w \<noteq> [46]) (split_slash p) of
        [] \<Rightarrow> []
      | w # ws \<Rightarrow> last (w # ws))"

fun last_dot_tail :: "ustr \<Rightarrow> ustr option" where
  "last_dot_tail [] = None"
| "last_dot_tail (c # cs) =
     (case last_dot_tail cs of
        Some t \<Rightarrow> Some t
      | None \<Rightarrow> if c = 46 then Some (c # cs) else None)"

definition path_suffix :: "ustr \<Rightarrow> ustr" where
  "path_suffix p =
     (let name = path_name p
      in case last_dot_tail name of
           None \<Rightarrow> []
         | Some t \<Rightarrow> if length t < length name \<and> 1 < length t then t else [])"

text \<open>
  \<open>urllib.parse.quote(s, safe="")\<close>: the UTF-8 bytes of \<open>s\<close>, each written \<open>%XX\<close> unless it is
  an ASCII letter, a digit or one of \<open>_.-~\<close>. (A lone surrogate, which Python refuses to
  encode, is not a code point of an address.)
\<close>

definition utf8 :: "nat \<Rightarrow> nat list" where
  "utf8 c =
     (if c < 0x80 then [c]
      else if c < 0x800 then [0xC0 + c div 64, 0x80 + c mod 64]
      else if c < 0x10000 then [0xE0 + c div 4096, 0x80 + c div 64 mod 64, 0x80 + c mod 64]
      else [0xF0 + c div 262144, 0x80 + c div 4096 mod 64, 0x80 + c div 64 mod 64,
            0x80 + c mod 64])"

definition hex_digit :: "nat \<Rightarrow> nat" where
  "hex_digit d = (if d < 10 then 48 + d else 55 + d)"

definition unreserved :: "nat \<Rightarrow> bool" where
  "unreserved c =
     ((48 \<le> c \<and> c \<le> 57) \<or> (65 \<le> c \<and> c \<le> 90) \<or> (97 \<le> c \<and> c \<le> 122) \<or>
      c = 95 \<or> c = 46 \<or> c = 45 \<or> c = 126)"

definition quote :: "ustr \<Rightarrow> ustr" where
  "quote s =
     concat (map (\<lambda>c. if unreserved c then [c]
                       else concat (map (\<lambda>b. [37, hex_digit (b div 16), hex_digit (b mod 16)])
                                        (utf8 c))) s)"

section \<open>The literals of \<open>app/notifications.py\<close>\<close>

text \<open>
  Each constant is one literal piece of a template of the source, named with the line it
  stands on; the Cyrillic and pictographic characters are given by code point.
\<close>

definition new_order_head :: ustr where \<comment> \<open>line 69\<close>
  "new_order_head = [0x1F195, 0x20, 0x2A, 0x41D, 0x43E, 0x432, 0x44B, 0x439, 0x20, 0x437,
  0x430, 0x43A, 0x430, 0x437, 0x21, 0x2A, 0xA, 0xA, 0x1F4CB, 0x20, 0x417, 0x430, 0x43A, 0x430,
  0x437, 0x3A, 0x20, 0x60]"

definition new_order_failed_head :: ustr where \<comment> \<open>line 92\<close>
  "new_order_failed_head = [0x41D, 0x435, 0x20, 0x443, 0x434, 0x430, 0x43B, 0x43E, 0x441,
  0x44C, 0x20, 0x43E, 0x442, 0x43F, 0x440, 0x430, 0x432, 0x438, 0x442, 0x44C, 0x20, 0x443,
  0x432, 0x435, 0x434, 0x43E, 0x43C, 0x43B, 0x435, 0x43D, 0x438, 0x435, 0x20, 0x43E, 0x20,
  0x43D, 0x43E, 0x432, 0x43E, 0x43C, 0x20, 0x437, 0x430, 0x43A, 0x430, 0x437, 0x435, 0x20]"

definition admins_tail :: ustr where \<comment> \<open>line 92, 259\<close>
  "admins_tail = [0x20, 0x430, 0x434, 0x43C, 0x438, 0x43D, 0x430, 0x43C]"

definition send_error_head :: ustr where \<comment> \<open>line 121, 348\<close>
  "send_error_head = [0x41E, 0x448, 0x438, 0x431, 0x43A, 0x430, 0x20, 0x43F, 0x440, 0x438,
  0x20, 0x43E, 0x442, 0x43F, 0x440, 0x430, 0x432, 0x43A, 0x435, 0x20, 0x443, 0x432, 0x435,
  0x434, 0x43E, 0x43C, 0x43B, 0x435, 0x43D, 0x438, 0x44F, 0x20, 0x430, 0x434, 0x43C, 0x438,
  0x43D, 0x438, 0x441, 0x442, 0x440, 0x430, 0x442, 0x43E, 0x440, 0x443, 0x20]"

definition default_product_name :: ustr where \<comment> \<open>line 168, 182\<close>
  "default_product_name = [0x422, 0x43E, 0x432, 0x430, 0x440]"

definition items_heading :: ustr where \<comment> \<open>line 189\<close>
  "items_heading = [0x1F4E6, 0x20, 0x2A, 0x422, 0x43E, 0x432, 0x430, 0x440, 0x44B, 0x3A, 0x2A,
  0xA]"

definition times_sign :: ustr where \<comment> \<open>line 192\<close>
  "times_sign = [0x20, 0xD7, 0x20]"

definition accepted_head :: ustr where \<comment> \<open>line 207\<close>
  "accepted_head = [0x2705, 0x20, 0x2A, 0x417, 0x430, 0x43A, 0x430, 0x437, 0x20, 0x43F, 0x440,
  0x438, 0x43D, 0x44F, 0x442, 0x21, 0x2A, 0xA, 0xA]"

definition order_label :: ustr where \<comment> \<open>line 208\<close>
  "order_label = [0x1F4CB, 0x20, 0x417, 0x430, 0x43A, 0x430, 0x437, 0x3A, 0x20, 0x60]"

definition slot_label :: ustr where \<comment> \<open>line 209\<close>
  "slot_label = [0x23F0, 0x20, 0x412, 0x440, 0x435, 0x43C, 0x44F, 0x20, 0x434, 0x43E, 0x441,
  0x442, 0x430, 0x432, 0x43A, 0x438] @ ascii '': *''"

definition customer_label :: ustr where \<comment> \<open>line 210\<close>
  "customer_label = [0x1F464, 0x20, 0x41A, 0x43B, 0x438, 0x435, 0x43D, 0x442, 0x3A, 0x20]"

definition phone_label :: ustr where \<comment> \<open>line 211\<close>
  "phone_label = [0x1F4DE, 0x20, 0x422, 0x435, 0x43B, 0x435, 0x444, 0x43E, 0x43D, 0x3A, 0x20]"

definition address_label :: ustr where \<comment> \<open>line 212\<close>
  "address_label = [0x1F4CD, 0x20, 0x410, 0x434, 0x440, 0x435, 0x441, 0x3A, 0x20]"

definition items_total_label :: ustr where \<comment> \<open>line 213\<close>
  "items_total_label = [0x1F4B0, 0x20, 0x422, 0x43E, 0x432, 0x430, 0x440, 0x44B, 0x3A, 0x20]"

definition delivery_label :: ustr where \<comment> \<open>line 214\<close>
  "delivery_label = [0x1F69A, 0x20, 0x414, 0x43E, 0x441, 0x442, 0x430, 0x432, 0x43A, 0x430,
  0x3A, 0x20]"

definition grand_total_label :: ustr where \<comment> \<open>line 215\<close>
  "grand_total_label = [0x1F4B0, 0x20, 0x2A, 0x418, 0x442, 0x43E, 0x433, 0x43E, 0x3A, 0x20]"

definition tenge :: ustr where \<comment> \<open>line 213-215\<close>
  "tenge = [0x20, 0x20B8]"

definition accepted_failed_head :: ustr where \<comment> \<open>line 259\<close>
  "accepted_failed_head = [0x41D, 0x435, 0x20, 0x443, 0x434, 0x430, 0x43B, 0x43E, 0x441, 0x44C,
  0x20, 0x43E, 0x442, 0x43F, 0x440, 0x430, 0x432, 0x438, 0x442, 0x44C, 0x20, 0x43F, 0x43E,
  0x43B, 0x43D, 0x43E, 0x435, 0x20, 0x443, 0x432, 0x435, 0x434, 0x43E, 0x43C, 0x43B, 0x435,
  0x43D, 0x438, 0x435, 0x20, 0x43E, 0x20, 0x43F, 0x440, 0x438, 0x43D, 0x44F, 0x442, 0x43E,
  0x43C, 0x20, 0x437, 0x430, 0x43A, 0x430, 0x437, 0x435, 0x20]"

definition file_http_error_head :: ustr where \<comment> \<open>line 325\<close>
  "file_http_error_head = ascii ''HTTP'' @ [0x20, 0x43E, 0x448, 0x438, 0x431, 0x43A, 0x430,
  0x20, 0x43F, 0x440, 0x438, 0x20, 0x43E, 0x442, 0x43F, 0x440, 0x430, 0x432, 0x43A, 0x435,
  0x20, 0x444, 0x430, 0x439, 0x43B, 0x430, 0x20, 0x430, 0x434, 0x43C, 0x438, 0x43D, 0x438,
  0x441, 0x442, 0x440, 0x430, 0x442, 0x43E, 0x440, 0x443, 0x20]"

definition file_exception_head :: ustr where \<comment> \<open>line 328\<close>
  "file_exception_head = [0x418, 0x441, 0x43A, 0x43B, 0x44E, 0x447, 0x435, 0x43D, 0x438, 0x435,
  0x20, 0x43F, 0x440, 0x438, 0x20, 0x43E, 0x442, 0x43F, 0x440, 0x430, 0x432, 0x43A, 0x435,
  0x20, 0x444, 0x430, 0x439, 0x43B, 0x430, 0x20, 0x430, 0x434, 0x43C, 0x438, 0x43D, 0x438,
  0x441, 0x442, 0x440, 0x430, 0x442, 0x43E, 0x440, 0x443, 0x20]"

definition status_new :: ustr where \<comment> \<open>line 378\<close>
  "status_new = [0x43D, 0x43E, 0x432, 0x44B, 0x439]"

definition status_accepted :: ustr where \<comment> \<open>line 380\<close>
  "status_accepted = [0x43F, 0x440, 0x438, 0x43D, 0x44F, 0x442]"

definition status_rejected :: ustr where \<comment> \<open>line 385\<close>
  "status_rejected = [0x43E, 0x442, 0x43A, 0x430, 0x437, 0x430, 0x43D, 0x43E]"

definition received_text :: ustr where \<comment> \<open>line 379\<close>
  "received_text = [0x2705, 0x20, 0x412, 0x430, 0x448, 0x20, 0x437, 0x430, 0x43A, 0x430, 0x437,
  0x20, 0x43F, 0x43E, 0x43B, 0x443, 0x447, 0x435, 0x43D, 0x2E, 0x20, 0x412, 0x44B, 0x20, 0x43F,
  0x43E, 0x43B, 0x443, 0x447, 0x438, 0x442, 0x435, 0x20, 0x443, 0x432, 0x435, 0x434, 0x43E,
  0x43C, 0x43B, 0x435, 0x43D, 0x438, 0x435, 0x20, 0x43E, 0x20, 0x432, 0x440, 0x435, 0x43C,
  0x435, 0x43D, 0x438, 0x20, 0x434, 0x43E, 0x441, 0x442, 0x430, 0x432, 0x43A, 0x438, 0x2E]"

definition accepted_slot_head :: ustr where \<comment> \<open>line 382\<close>
  "accepted_slot_head = [0x2705, 0x20, 0x412, 0x430, 0x448, 0x20, 0x437, 0x430, 0x43A, 0x430,
  0x437, 0x20, 0x43F, 0x440, 0x438, 0x43D, 0x44F, 0x442, 0x21, 0x20, 0x414, 0x43E, 0x441,
  0x442, 0x430, 0x432, 0x43A, 0x430, 0x20, 0x431, 0x443, 0x434, 0x435, 0x442, 0x20, 0x43E,
  0x441, 0x443, 0x449, 0x435, 0x441, 0x442, 0x432, 0x43B, 0x435, 0x43D, 0x430, 0x20, 0x432,
  0x20, 0x43F, 0x435, 0x440, 0x438, 0x43E, 0x434, 0x20, 0x2A]"

definition accepted_short_text :: ustr where \<comment> \<open>line 384\<close>
  "accepted_short_text = [0x2705, 0x20, 0x412, 0x430, 0x448, 0x20, 0x437, 0x430, 0x43A, 0x430,
  0x437, 0x20, 0x43F, 0x440, 0x438, 0x43D, 0x44F, 0x442, 0x21]"

definition reason_head :: ustr where \<comment> \<open>line 386\<close>
  "reason_head = [0xA, 0xA, 0x41F, 0x440, 0x438, 0x447, 0x438, 0x43D, 0x430, 0x3A, 0x20]"

definition rejected_text :: ustr where \<comment> \<open>line 387\<close>
  "rejected_text = [0x274C, 0x20, 0x412, 0x430, 0x448, 0x20, 0x437, 0x430, 0x43A, 0x430, 0x437,
  0x20, 0x43E, 0x442, 0x43A, 0x43B, 0x43E, 0x43D, 0x435, 0x43D, 0x20, 0x43F, 0x43E, 0x20,
  0x43A, 0x430, 0x43A, 0x43E, 0x439, 0x2D, 0x442, 0x43E, 0x20, 0x43F, 0x440, 0x438, 0x447,
  0x438, 0x43D, 0x435, 0x2E]"

definition changed_head :: ustr where \<comment> \<open>line 389\<close>
  "changed_head = [0x421, 0x442, 0x430, 0x442, 0x443, 0x441, 0x20, 0x432, 0x430, 0x448, 0x435,
  0x433, 0x43E, 0x20, 0x437, 0x430, 0x43A, 0x430, 0x437, 0x430, 0x20, 0x438, 0x437, 0x43C,
  0x435, 0x43D, 0x451, 0x43D, 0x3A, 0x20]"

definition footer_order :: ustr where \<comment> \<open>line 392\<close>
  "footer_order = [0xA, 0xA, 0x1F4CB, 0x20, 0x417, 0x430, 0x43A, 0x430, 0x437, 0x3A, 0x20,
  0x60]"

definition footer_status :: ustr where \<comment> \<open>line 392\<close>
  "footer_status = [0x60, 0xA, 0x1F4CA, 0x20, 0x421, 0x442, 0x430, 0x442, 0x443, 0x441] @
  ascii '': *''"

definition type_invalid_user :: ustr where \<comment> \<open>line 422\<close>
  "type_invalid_user = [0x43D, 0x435, 0x432, 0x430, 0x43B, 0x438, 0x434, 0x43D, 0x44B, 0x439,
  0x20, 0x43F, 0x43E, 0x43B, 0x44C, 0x437, 0x43E, 0x432, 0x430, 0x442, 0x435, 0x43B, 0x44C]"

definition type_blocked :: ustr where \<comment> \<open>line 424\<close>
  "type_blocked = [0x43F, 0x43E, 0x43B, 0x44C, 0x437, 0x43E, 0x432, 0x430, 0x442, 0x435, 0x43B,
  0x44C, 0x20, 0x437, 0x430, 0x431, 0x43B, 0x43E, 0x43A, 0x438, 0x440, 0x43E, 0x432, 0x430,
  0x43B, 0x20, 0x431, 0x43E, 0x442, 0x430]"

definition type_rate_limit :: ustr where \<comment> \<open>line 426\<close>
  "type_rate_limit = ascii ''rate limit ('' @ [0x441, 0x43B, 0x438, 0x448, 0x43A, 0x43E, 0x43C,
  0x20, 0x43C, 0x43D, 0x43E, 0x433, 0x43E, 0x20, 0x437, 0x430, 0x43F, 0x440, 0x43E, 0x441,
  0x43E, 0x432, 0x29]"

definition type_bad_request :: ustr where \<comment> \<open>line 428\<close>
  "type_bad_request = [0x43D, 0x435, 0x432, 0x435, 0x440, 0x43D, 0x44B, 0x439, 0x20, 0x437,
  0x430, 0x43F, 0x440, 0x43E, 0x441]"

definition type_forbidden :: ustr where \<comment> \<open>line 430\<close>
  "type_forbidden = [0x434, 0x43E, 0x441, 0x442, 0x443, 0x43F, 0x20, 0x437, 0x430, 0x43F,
  0x440, 0x435, 0x449, 0x435, 0x43D]"

definition type_unknown :: ustr where \<comment> \<open>line 432\<close>
  "type_unknown = [0x43D, 0x435, 0x438, 0x437, 0x432, 0x435, 0x441, 0x442, 0x43D, 0x430, 0x44F,
  0x20, 0x43E, 0x448, 0x438, 0x431, 0x43A, 0x430]"

definition customer_warning_head :: ustr where \<comment> \<open>line 435\<close>
  "customer_warning_head = [0x41E, 0x448, 0x438, 0x431, 0x43A, 0x430, 0x20, 0x43F, 0x440,
  0x438, 0x20, 0x43E, 0x442, 0x43F, 0x440, 0x430, 0x432, 0x43A, 0x435, 0x20, 0x443, 0x432,
  0x435, 0x434, 0x43E, 0x43C, 0x43B, 0x435, 0x43D, 0x438, 0x44F, 0x20, 0x43A, 0x43B, 0x438,
  0x435, 0x43D, 0x442, 0x443, 0x20, 0x28]"

definition pruned_head :: ustr where \<comment> \<open>line 446\<close>
  "pruned_head = [0x423, 0x434, 0x430, 0x43B, 0x435, 0x43D, 0x20, 0x43D, 0x435, 0x432, 0x430,
  0x43B, 0x438, 0x434, 0x43D, 0x44B, 0x439, 0x20, 0x43F, 0x43E, 0x43B, 0x44C, 0x437, 0x43E,
  0x432, 0x430, 0x442, 0x435, 0x43B, 0x44C, 0x20, 0x438, 0x437, 0x20, 0x431, 0x430, 0x437,
  0x44B] @ ascii '': user_id=''"

definition prune_failed_head :: ustr where \<comment> \<open>line 451\<close>
  "prune_failed_head = [0x41E, 0x448, 0x438, 0x431, 0x43A, 0x430, 0x20, 0x43F, 0x440, 0x438,
  0x20, 0x443, 0x434, 0x430, 0x43B, 0x435, 0x43D, 0x438, 0x438, 0x20, 0x43D, 0x435, 0x432,
  0x430, 0x43B, 0x438, 0x434, 0x43D, 0x43E, 0x433, 0x43E, 0x20, 0x43F, 0x43E, 0x43B, 0x44C,
  0x437, 0x43E, 0x432, 0x430, 0x442, 0x435, 0x43B, 0x44F, 0x20, 0x438, 0x437, 0x20, 0x431,
  0x430, 0x437, 0x44B] @ ascii '': user_id=''"

definition timeout_head :: ustr where \<comment> \<open>line 456\<close>
  "timeout_head = [0x422, 0x430, 0x439, 0x43C, 0x430, 0x443, 0x442, 0x20, 0x43F, 0x440, 0x438,
  0x20, 0x43E, 0x442, 0x43F, 0x440, 0x430, 0x432, 0x43A, 0x435, 0x20, 0x443, 0x432, 0x435,
  0x434, 0x43E, 0x43C, 0x43B, 0x435, 0x43D, 0x438, 0x44F, 0x20, 0x43A, 0x43B, 0x438, 0x435,
  0x43D, 0x442, 0x443] @ ascii '': user_id=''"

definition http_error_head :: ustr where \<comment> \<open>line 462\<close>
  "http_error_head = ascii ''HTTP'' @ [0x20, 0x43E, 0x448, 0x438, 0x431, 0x43A, 0x430, 0x20,
  0x43F, 0x440, 0x438, 0x20, 0x43E, 0x442, 0x43F, 0x440, 0x430, 0x432, 0x43A, 0x435, 0x20,
  0x443, 0x432, 0x435, 0x434, 0x43E, 0x43C, 0x43B, 0x435, 0x43D, 0x438, 0x44F, 0x20, 0x43A,
  0x43B, 0x438, 0x435, 0x43D, 0x442, 0x443] @ ascii '': status_code=''"

definition exception_head :: ustr where \<comment> \<open>line 469\<close>
  "exception_head = [0x418, 0x441, 0x43A, 0x43B, 0x44E, 0x447, 0x435, 0x43D, 0x438, 0x435,
  0x20, 0x43F, 0x440, 0x438, 0x20, 0x43E, 0x442, 0x43F, 0x440, 0x430, 0x432, 0x43A, 0x435,
  0x20, 0x443, 0x432, 0x435, 0x434, 0x43E, 0x43C, 0x43B, 0x435, 0x43D, 0x438, 0x44F, 0x20,
  0x43A, 0x43B, 0x438, 0x435, 0x43D, 0x442, 0x443, 0x3A, 0x20]"

section \<open>Configuration, provider, stores and what a call leaves behind\<close>

text \<open>
  \<open>get_settings()\<close> (module \<open>config\<close>): the bot credential, absent or a string, and the list
  of administrator chat ids.
\<close>

record settings =
  telegram_bot_token :: "ustr option"
  admin_ids :: "int list"

text \<open>
  An exception carries what the handlers read of it: \<open>str(e)\<close> for all, the status code and
  the text of the response for \<open>httpx.HTTPStatusError\<close>, the name of the class for any other
  exception.
\<close>

datatype exc =
    TimeoutException ustr
  | HTTPStatusError nat ustr ustr
  | OtherError ustr ustr

fun exc_str :: "exc \<Rightarrow> ustr" where
  "exc_str (TimeoutException s) = s"
| "exc_str (HTTPStatusError code body s) = s"
| "exc_str (OtherError cls s) = s"

text \<open>
  The provider answers with a JSON object: \<open>ok\<close>, and on failure \<open>error_code\<close> and
  \<open>description\<close>; a key can be absent. \<open>response.json()\<close> raises on a malformed body.
  \<open>status_error\<close> is the text of the exception \<open>raise_for_status()\<close> builds.
\<close>

record api_result =
  ok :: "bool option"
  error_code :: "int option"
  description :: "ustr option"

record response =
  status_code :: nat
  body_text :: ustr
  status_error :: ustr
  json :: "exc + api_result"

text \<open>\<open>httpx.Response.raise_for_status()\<close>: every status outside 200..299 raises.\<close>

definition raise_for_status :: "response \<Rightarrow> exc option" where
  "raise_for_status r =
     (if 200 \<le> status_code r \<and> status_code r < 300 then None
      else Some (HTTPStatusError (status_code r) (body_text r) (status_error r)))"

text \<open>
  A request to the provider: the JSON \<open>sendMessage\<close> call (URL, \<open>chat_id\<close>, \<open>text\<close>,
  \<open>reply_markup\<close> when given) or the multipart call with a file (URL, the name of the file
  field, the file tuple, \<open>chat_id\<close> as text, \<open>caption\<close>). Both always carry
  \<open>parse_mode = Markdown\<close>. The provider is a function from the request to what
  \<open>client.post\<close> does with it: it raises or it returns a response.
\<close>

type_synonym keyboard = "(ustr \<times> ustr) list"

datatype request =
    JsonPost ustr int ustr "keyboard option"
  | MultipartPost ustr ustr "ustr \<times> bytes \<times> ustr option" ustr ustr

type_synonym provider = "request \<Rightarrow> exc + response"

text \<open>
  What a notification leaves behind, in order: requests sent to the provider, log records,
  reads of the product catalogue and of the blob store, and deletions in the customer
  registry. The fan-out awaits its deliveries together; their events are listed recipient
  by recipient, in the order of \<open>asyncio.gather\<close>'s results.
\<close>

datatype level = ERROR | WARNING | INFO

datatype event =
    Post request
  | Log level ustr
  | FindOne ustr
  | GridFsGet ustr
  | DeleteOne int

definition api_url :: "ustr \<Rightarrow> string \<Rightarrow> ustr" where
  "api_url bot_token api_method =
     ascii ''https://api.telegram.org/bot'' @ bot_token @ ascii ''/'' @ ascii api_method"

section \<open>\<open>_send_simple_notification\<close>\<close>

definition send_simple_notification ::
  "provider \<Rightarrow> ustr \<Rightarrow> int \<Rightarrow> ustr \<Rightarrow> keyboard option \<Rightarrow> event list \<times> bool" where
  "send_simple_notification client bot_token admin_id message keyboard =
     (let request = JsonPost (api_url bot_token ''sendMessage'') admin_id message
                      (if truthy_opt keyboard then keyboard else None);
          failed = (\<lambda>e. ([Post request,
                           Log ERROR (send_error_head @ str_int admin_id @ ascii '': '' @ exc_str e)],
                          False))
      in case client request of
           Inl e \<Rightarrow> failed e
         | Inr response \<Rightarrow>
             (case json response of
                Inl e \<Rightarrow> failed e
              | Inr result \<Rightarrow>
                  ([Post request], (case ok result of Some b \<Rightarrow> b | None \<Rightarrow> False))))"

section \<open>\<open>notify_admins_new_order\<close>\<close>

text \<open>
  Of its parameters the function reads only \<open>order_id\<close>; the customer, the address, the
  amount, the items, the receipt reference and the database handle are not used.
\<close>

definition new_order_message :: "ustr \<Rightarrow> ustr" where
  "new_order_message order_id = new_order_head @ last6 order_id @ [0x60]"

definition notify_admins_new_order ::
  "settings \<Rightarrow> provider \<Rightarrow> ustr \<Rightarrow> event list" where
  "notify_admins_new_order settings client order_id =
     (case telegram_bot_token settings of
        None \<Rightarrow> []
      | Some token \<Rightarrow>
          if token = [] then []
          else if admin_ids settings = [] then []
          else
            let message = new_order_message order_id;
                tasks = map (\<lambda>admin_id. send_simple_notification client token admin_id message None)
                          (admin_ids settings);
                results = map snd tasks;
                success_count = length (filter (\<lambda>r. r = True) results);
                failed_count = length results - success_count
            in concat (map fst tasks) @
               (if failed_count > 0
                then [Log ERROR (new_order_failed_head @ order_id @ ascii '' '' @
                                 str_nat failed_count @ admins_tail)]
                else []))"

section \<open>\<open>_send_notification_with_receipt\<close>\<close>

definition image_extensions :: "ustr list" where
  "image_extensions =
     [ascii ''.jpg'', ascii ''.jpeg'', ascii ''.png'', ascii ''.webp'', ascii ''.heic'',
      ascii ''.heif'']"

definition is_image :: "ustr \<Rightarrow> ustr option \<Rightarrow> bool" where
  "is_image receipt_filename receipt_content_type =
     (let file_extension = py_lower (path_suffix receipt_filename)
      in file_extension \<in> set image_extensions \<or>
         (case receipt_content_type of
            None \<Rightarrow> False
          | Some t \<Rightarrow> t \<noteq> [] \<and> prefix (ascii ''image/'') t))"

definition is_pdf :: "ustr \<Rightarrow> ustr option \<Rightarrow> bool" where
  "is_pdf receipt_filename receipt_content_type =
     (let file_extension = py_lower (path_suffix receipt_filename)
      in file_extension = ascii ''.pdf'' \<or> receipt_content_type = Some (ascii ''application/pdf''))"

text \<open>
  The branch taken by the \<open>if is_image / elif is_pdf / else\<close> of lines 289 to 297, and the
  pair \<open>(api_method, file_field)\<close> it sets.
\<close>

datatype attachment_kind = ImageKind | PdfKind | DocumentKind

definition receipt_kind :: "ustr \<Rightarrow> ustr option \<Rightarrow> attachment_kind" where
  "receipt_kind receipt_filename receipt_content_type =
     (if is_image receipt_filename receipt_content_type then ImageKind
      else if is_pdf receipt_filename receipt_content_type then PdfKind
      else DocumentKind)"

definition file_endpoint :: "ustr \<Rightarrow> ustr option \<Rightarrow> string \<times> string" where
  "file_endpoint receipt_filename receipt_content_type =
     (case receipt_kind receipt_filename receipt_content_type of
        ImageKind \<Rightarrow> (''sendPhoto'', ''photo'')
      | PdfKind \<Rightarrow> (''sendDocument'', ''document'')
      | DocumentKind \<Rightarrow> (''sendDocument'', ''document''))"

text \<open>
  \<open>client.post\<close>, \<open>raise_for_status()\<close> and \<open>json()\<close> in a row, as both calls of the function
  run them: the first exception of the three, or the parsed answer.
\<close>

definition post_checked :: "provider \<Rightarrow> request \<Rightarrow> exc + api_result" where
  "post_checked client request =
     (case client request of
        Inl e \<Rightarrow> Inl e
      | Inr response \<Rightarrow>
          (case raise_for_status response of
             Some e \<Rightarrow> Inl e
           | None \<Rightarrow> json response))"

text \<open>The file call of lines 281 to 329: its events and \<open>file_sent\<close>.\<close>

definition send_file ::
  "provider \<Rightarrow> ustr \<Rightarrow> int \<Rightarrow> ustr \<Rightarrow> bytes option \<Rightarrow> ustr option \<Rightarrow> ustr option \<Rightarrow>
   event list \<times> bool" where
  "send_file client bot_token admin_id message receipt_data receipt_filename receipt_content_type =
     (if truthy_opt receipt_data \<and> truthy_opt receipt_filename then
        let name = str_or receipt_filename [];
            data = (case receipt_data of Some d \<Rightarrow> d | None \<Rightarrow> []);
            (api_method, file_field) = file_endpoint name receipt_content_type;
            file_tuple = (str_or receipt_filename (ascii ''receipt''), data,
                          (if truthy_opt receipt_content_type then receipt_content_type else None));
            request = MultipartPost (api_url bot_token api_method) (ascii file_field) file_tuple
                        (str_int admin_id) message
        in case post_checked client request of
             Inr result \<Rightarrow> ([Post request], ok result = Some True)
           | Inl (HTTPStatusError code body s) \<Rightarrow>
               ([Post request,
                 Log ERROR (file_http_error_head @ str_int admin_id @ ascii '': '' @ str_nat code @
                            ascii '' - '' @ body)], False)
           | Inl e \<Rightarrow>
               ([Post request, Log ERROR (file_exception_head @ str_int admin_id)], False)
      else ([], False))"

definition send_notification_with_receipt ::
  "provider \<Rightarrow> ustr \<Rightarrow> int \<Rightarrow> ustr \<Rightarrow> bytes option \<Rightarrow> ustr option \<Rightarrow> ustr option \<Rightarrow>
   event list \<times> bool" where
  "send_notification_with_receipt client bot_token admin_id message receipt_data receipt_filename
       receipt_content_type =
     (let (file_events, file_sent) =
            send_file client bot_token admin_id message receipt_data receipt_filename
              receipt_content_type
      in if file_sent then (file_events, True)
         else
           let request = JsonPost (api_url bot_token ''sendMessage'') admin_id message None
           in case post_checked client request of
                Inl e \<Rightarrow>
                  (file_events @
                   [Post request,
                    Log ERROR (send_error_head @ str_int admin_id @ ascii '': '' @ exc_str e)],
                   False)
              | Inr result \<Rightarrow> (file_events @ [Post request], ok result = Some True))"

section \<open>\<open>notify_admin_order_accepted\<close>\<close>

text \<open>
  A line item is a dictionary of the order document; a product of the catalogue has a name
  and a list of variants, each with an id and a name. \<open>db.products.find_one\<close> (with
  \<open>as_object_id\<close>) raises, finds nothing, or returns the product; \<open>fs.get\<close> (with
  \<open>get_gridfs\<close> and \<open>ObjectId\<close>) raises or returns a file, whose \<open>read\<close> raises or returns
  the content.
\<close>

record line_item =
  product_id :: "ustr field"
  variant_id :: "ustr field"
  quantity :: "int field"
  product_name :: "ustr field"
  variant_name :: "ustr field"
  price :: "pynum field"

record variant =
  vid :: "ustr field"
  vname :: "ustr field"

record product =
  pname :: "ustr field"
  variants :: "variant list field"

type_synonym catalogue = "ustr \<Rightarrow> exc + product option"

record grid_file =
  read :: "exc + bytes"
  filename :: "ustr option"
  content_type :: "ustr option"

type_synonym blob_store = "ustr \<Rightarrow> exc + grid_file"

text \<open>
  The body of the loop of lines 164 to 186 for one item: the catalogue read it makes, if
  any, and the entry \<open>(product_name, variant_name, quantity)\<close> appended to \<open>items_details\<close>.
  An exception inside the \<open>try\<close> (the lookup raises, or \<open>variants\<close> holds \<open>None\<close>) leaves both
  names as they were.
\<close>

definition item_detail :: "catalogue \<Rightarrow> line_item \<Rightarrow> event list \<times> (ustr field \<times> ustr \<times> int field)" where
  "item_detail find_one item =
     (let qty = get_or (quantity item) 1;
          pn = get_or (product_name item) default_product_name;
          vn = (case variant_name item of Missing \<Rightarrow> Null | f \<Rightarrow> f);
          blank = (\<lambda>f. case f of Val s \<Rightarrow> s | _ \<Rightarrow> [])
      in case (truthy vn, variant_id item, product_id item) of
           (False, Val v, Val p) \<Rightarrow>
             if v = [] \<or> p = [] then ([], (pn, blank vn, qty))
             else
               ([FindOne p],
                (case find_one p of
                   Inl e \<Rightarrow> (pn, blank vn, qty)
                 | Inr None \<Rightarrow> (pn, blank vn, qty)
                 | Inr (Some product) \<Rightarrow>
                     (case get_or (variants product) [] of
                        Val vs \<Rightarrow>
                          (let vn' = (case find (\<lambda>x. vid x = Val v) vs of
                                        Some x \<Rightarrow> get_or (vname x) []
                                      | None \<Rightarrow> vn);
                               pn' = (if \<not> truthy pn then get_or (pname product) default_product_name
                                      else pn)
                           in (pn', blank vn', qty))
                      | _ \<Rightarrow> (pn, blank vn, qty))))
         | _ \<Rightarrow> ([], (pn, blank vn, qty)))"

text \<open>A value inside an f-string: \<open>None\<close> prints as the word.\<close>

definition show_str :: "ustr field \<Rightarrow> ustr" where
  "show_str f = (case f of Val s \<Rightarrow> s | _ \<Rightarrow> ascii ''None'')"

definition show_int :: "int field \<Rightarrow> ustr" where
  "show_int f = (case f of Val i \<Rightarrow> str_int i | _ \<Rightarrow> ascii ''None'')"

fun items_lines :: "nat \<Rightarrow> (ustr field \<times> ustr \<times> int field) list \<Rightarrow> ustr" where
  "items_lines idx [] = []"
| "items_lines idx ((pn, vn, qty) # rest) =
     (let variant_info = (if vn \<noteq> [] then ascii '' ('' @ vn @ ascii '')'' else [])
      in str_nat idx @ ascii ''. '' @ show_str pn @ variant_info @ times_sign @ show_int qty @
         [0xA]) @
     items_lines (Suc idx) rest"

definition items_text :: "(ustr field \<times> ustr \<times> int field) list \<Rightarrow> ustr" where
  "items_text items_details = items_heading @ items_lines 1 items_details"

text \<open>\<open>x or 0\<close>: an absent key, \<open>None\<close> and a zero give the \<open>int\<close> 0.\<close>

definition or_zero :: "int field \<Rightarrow> int" where
  "or_zero f = (case f of Val v \<Rightarrow> v | _ \<Rightarrow> 0)"

definition num_or_zero :: "pynum field \<Rightarrow> pynum" where
  "num_or_zero f = (case f of Val n \<Rightarrow> if num_value n = 0 then PyInt 0 else n | _ \<Rightarrow> PyInt 0)"

text \<open>Line 203, one term of the sum, and the sum; line 205.\<close>

definition item_amount :: "line_item \<Rightarrow> pynum" where
  "item_amount item = py_mul (num_or_zero (price item)) (PyInt (or_zero (quantity item)))"

definition items_total :: "summation \<Rightarrow> line_item list \<Rightarrow> pynum" where
  "items_total py_sum items = py_sum (map item_amount items)"

definition delivery_fee :: "summation \<Rightarrow> pynum \<Rightarrow> line_item list \<Rightarrow> pynum" where
  "delivery_fee py_sum total_amount items = py_sub total_amount (items_total py_sum items)"

definition address_link :: "ustr \<Rightarrow> ustr" where
  "address_link delivery_address =
     ascii ''['' @ delivery_address @ ascii '']('' @
     ascii ''https://2gis.kz/search/'' @ quote delivery_address @ ascii '')''"

text \<open>The f-string of lines 206 to 217.\<close>

definition accepted_message ::
  "summation \<Rightarrow> ustr \<Rightarrow> ustr \<Rightarrow> ustr \<Rightarrow> ustr \<Rightarrow> ustr \<Rightarrow> pynum \<Rightarrow> line_item list \<Rightarrow> ustr \<Rightarrow>
   ustr" where
  "accepted_message py_sum order_id delivery_time_slot customer_name customer_phone
       delivery_address total_amount items items_txt =
     accepted_head @
     order_label @ last6 order_id @ [0x60, 0xA] @
     slot_label @ delivery_time_slot @ [0x2A, 0xA, 0xA] @
     customer_label @ customer_name @ [0xA] @
     phone_label @ customer_phone @ [0xA] @
     address_label @ address_link delivery_address @ [0xA] @
     items_total_label @ format_amount (num_value (items_total py_sum items)) @ tenge @ [0xA] @
     delivery_label @ format_amount (num_value (delivery_fee py_sum total_amount items)) @
       tenge @ [0xA] @
     grand_total_label @ format_amount (num_value total_amount) @ tenge @ [0x2A, 0xA, 0xA] @
     items_txt"

text \<open>
  Lines 219 to 234: the blob-store read, if a reference was given, and
  \<open>(receipt_data, receipt_filename, receipt_content_type)\<close>.
\<close>

definition fetch_receipt ::
  "blob_store \<Rightarrow> ustr option \<Rightarrow> event list \<times> (bytes option \<times> ustr option \<times> ustr option)" where
  "fetch_receipt fs_get receipt_file_id =
     (case receipt_file_id of
        None \<Rightarrow> ([], (None, None, None))
      | Some ref \<Rightarrow>
          if ref = [] then ([], (None, None, None))
          else
            ([GridFsGet ref],
             (case fs_get ref of
                Inl e \<Rightarrow> (None, None, None)
              | Inr grid_file \<Rightarrow>
                  (case read grid_file of
                     Inl e \<Rightarrow> (None, None, None)
                   | Inr data \<Rightarrow>
                       ((if data = [] then None else Some data),
                        Some (str_or (filename grid_file) (ascii ''receipt'')),
                        Some (str_or (content_type grid_file)
                                (ascii ''application/octet-stream'')))))))"

definition notify_admin_order_accepted ::
  "summation \<Rightarrow> settings \<Rightarrow> provider \<Rightarrow> catalogue \<Rightarrow> blob_store \<Rightarrow>
   ustr \<Rightarrow> ustr \<Rightarrow> ustr \<Rightarrow> ustr \<Rightarrow> pynum \<Rightarrow> line_item list \<Rightarrow> ustr option \<Rightarrow> ustr \<Rightarrow>
   event list" where
  "notify_admin_order_accepted py_sum settings client find_one fs_get
       order_id customer_name customer_phone delivery_address total_amount items
       receipt_file_id delivery_time_slot =
     (case telegram_bot_token settings of
        None \<Rightarrow> []
      | Some token \<Rightarrow>
          if token = [] then []
          else if admin_ids settings = [] then []
          else
            let lookups = map (item_detail find_one) items;
                items_details = map snd lookups;
                message = accepted_message py_sum order_id delivery_time_slot customer_name
                            customer_phone delivery_address total_amount items
                            (items_text items_details);
                (fetch_events, receipt_data, receipt_filename, receipt_content_type) =
                  fetch_receipt fs_get receipt_file_id;
                tasks = map (\<lambda>admin_id. send_notification_with_receipt client token admin_id
                                          message receipt_data receipt_filename
                                          receipt_content_type)
                          (admin_ids settings);
                results = map snd tasks;
                success_count = length (filter (\<lambda>r. r = True) results);
                failed_count = length results - success_count
            in concat (map fst lookups) @ fetch_events @ concat (map fst tasks) @
               (if failed_count > 0
                then [Log ERROR (accepted_failed_head @ order_id @ ascii '' '' @
                                 str_nat failed_count @ admins_tail)]
                else []))"

section \<open>\<open>notify_customer_order_status\<close>\<close>

text \<open>
  Lines 378 to 392: the text chosen by the status and the whole message. The parameter
  \<open>customer_name\<close> of the function is not used.
\<close>

definition status_message :: "ustr \<Rightarrow> ustr option \<Rightarrow> ustr option \<Rightarrow> ustr" where
  "status_message order_status rejection_reason delivery_time_slot =
     (if order_status = status_new then received_text
      else if order_status = status_accepted then
        (if truthy_opt delivery_time_slot
         then accepted_slot_head @ str_or delivery_time_slot [] @ ascii ''*.''
         else accepted_short_text)
      else if order_status = status_rejected then
        (let reason_text = (if truthy_opt rejection_reason
                            then reason_head @ str_or rejection_reason [] else [])
         in rejected_text @ reason_text)
      else changed_head @ order_status)"

definition customer_message :: "ustr \<Rightarrow> ustr \<Rightarrow> ustr option \<Rightarrow> ustr option \<Rightarrow> ustr" where
  "customer_message order_id order_status rejection_reason delivery_time_slot =
     status_message order_status rejection_reason delivery_time_slot @
     footer_order @ last6 order_id @ footer_status @ order_status @ [0x2A]"

text \<open>\<open>result.get("description", "Unknown error")\<close>.\<close>

definition error_description :: "api_result \<Rightarrow> ustr" where
  "error_description result =
     (case description result of Some d \<Rightarrow> d | None \<Rightarrow> ascii ''Unknown error'')"

definition invalid_user_phrases :: "ustr list" where
  "invalid_user_phrases =
     [ascii ''chat not found'', ascii ''user not found'', ascii ''receiver not found'',
      ascii ''chat_id is empty'', ascii ''peer_id_invalid'']"

definition blocked_phrases :: "ustr list" where
  "blocked_phrases =
     [ascii ''blocked'', ascii ''bot blocked'', ascii ''bot was blocked'',
      ascii ''user is deactivated'']"

definition is_invalid_user :: "ustr \<Rightarrow> bool" where
  "is_invalid_user descr =
     list_ex (\<lambda>phrase. contains phrase (py_lower descr)) invalid_user_phrases"

definition is_blocked :: "ustr \<Rightarrow> bool" where
  "is_blocked descr =
     list_ex (\<lambda>phrase. contains phrase (py_lower descr)) blocked_phrases"

definition error_type :: "ustr \<Rightarrow> int option \<Rightarrow> ustr" where
  "error_type descr code =
     (if is_invalid_user descr then type_invalid_user
      else if is_blocked descr then type_blocked
      else if code = Some 429 then type_rate_limit
      else if code = Some 400 then type_bad_request
      else if code = Some 403 then type_forbidden
      else type_unknown)"

definition show_code :: "int option \<Rightarrow> ustr" where
  "show_code c = (case c of Some i \<Rightarrow> str_int i | None \<Rightarrow> ascii ''None'')"

text \<open>
  The registry handle \<open>db\<close>. \<open>truth\<close> is what the truth test of the handle does, \<open>bool(db)\<close>:
  it gives a truth value or raises. It is the handle's class that decides: the annotated
  class, Motor's \<open>AsyncIOMotorDatabase\<close>, is not part of this repository, and its database
  objects of version 3 (over PyMongo 4) implement no truth test, \<open>bool(db)\<close> raising
  \<open>NotImplementedError\<close>; an object without \<open>__bool__\<close> and \<open>__len__\<close> is true. Behind
  \<open>db.customers\<close> are the recipient ids that have a record, and the exception \<open>delete_one\<close>
  raises when the store is out of reach. \<open>delete_one\<close> removes one matching record and
  reports how many it removed.
\<close>

record registry =
  truth :: "exc + bool"
  customers :: "int list"
  delete_error :: "exc option"

definition delete_one :: "registry \<Rightarrow> int \<Rightarrow> exc + (nat \<times> registry)" where
  "delete_one db telegram_id =
     (case delete_error db of
        Some e \<Rightarrow> Inl e
      | None \<Rightarrow>
          if telegram_id \<in> set (customers db)
          then Inr (1, db\<lparr>customers := remove1 telegram_id (customers db)\<rparr>)
          else Inr (0, db))"

text \<open>
  Lines 440 to 453: the pruning of a recipient classified invalid or blocked. The condition
  \<open>db and (is_invalid_user or is_blocked)\<close> of line 441 is false at once for \<open>None\<close>;
  for a handle it tests the truth of the handle first, whatever the classification, and an
  exception of that test leaves the block, outside the inner \<open>try\<close>.
\<close>

definition prune ::
  "registry option \<Rightarrow> int \<Rightarrow> ustr \<Rightarrow> ustr \<Rightarrow> int option \<Rightarrow>
   exc + (event list \<times> registry option)" where
  "prune db user_id order_id descr code =
     (case db of
        None \<Rightarrow> Inr ([], None)
      | Some store \<Rightarrow>
          (case truth store of
             Inl e \<Rightarrow> Inl e
           | Inr False \<Rightarrow> Inr ([], Some store)
           | Inr True \<Rightarrow>
               if is_invalid_user descr \<or> is_blocked descr then
                 (case delete_one store user_id of
                    Inr (deleted_count, store') \<Rightarrow>
                      Inr (DeleteOne user_id #
                           (if deleted_count > 0
                            then [Log INFO (pruned_head @ str_int user_id @
                                            ascii '', reason='' @ error_type descr code @
                                            ascii '', order_id='' @ order_id)]
                            else []),
                           Some store')
                  | Inl e \<Rightarrow>
                      Inr ([DeleteOne user_id,
                            Log ERROR (prune_failed_head @ str_int user_id @
                                       ascii '', order_id='' @ order_id @ ascii '', error='' @
                                       exc_str e)],
                           Some store))
               else Inr ([], Some store)))"

text \<open>
  The three \<open>except\<close> clauses of lines 454 to 472. They catch what the call, the parsing of
  the answer and the truth test of line 441 raise.
\<close>

definition customer_send_failed :: "exc \<Rightarrow> int \<Rightarrow> ustr \<Rightarrow> ustr \<Rightarrow> event" where
  "customer_send_failed e user_id order_id order_status =
     (let ids = str_int user_id @ ascii '', order_id='' @ order_id @ ascii '', status='' @
                order_status
      in case e of
           TimeoutException s \<Rightarrow> Log ERROR (timeout_head @ ids @ ascii '', timeout=10.0s'')
         | HTTPStatusError code body s \<Rightarrow>
             Log ERROR (http_error_head @ str_nat code @ ascii '', user_id='' @ ids @
                        ascii '', response_text='' @ first200 body)
         | OtherError cls s \<Rightarrow>
             Log ERROR (exception_head @ cls @ ascii '': '' @ s @ ascii '', user_id='' @ ids))"

definition notify_customer_order_status ::
  "settings \<Rightarrow> provider \<Rightarrow> registry option \<Rightarrow> int \<Rightarrow> ustr \<Rightarrow> ustr \<Rightarrow> ustr option \<Rightarrow>
   ustr option \<Rightarrow> event list \<times> registry option" where
  "notify_customer_order_status settings client db user_id order_id order_status
       rejection_reason delivery_time_slot =
     (case telegram_bot_token settings of
        None \<Rightarrow> ([], db)
      | Some token \<Rightarrow>
          if token = [] then ([], db)
          else
            let message = customer_message order_id order_status rejection_reason
                            delivery_time_slot;
                request = JsonPost (api_url token ''sendMessage'') user_id message None;
                failed = (\<lambda>e. ([Post request,
                                 customer_send_failed e user_id order_id order_status], db))
            in case client request of
                 Inl e \<Rightarrow> failed e
               | Inr response \<Rightarrow>
                   (case json response of
                      Inl e \<Rightarrow> failed e
                    | Inr result \<Rightarrow>
                        if ok result = Some True then ([Post request], db)
                        else
                          let code = error_code result;
                              descr = error_description result;
                              warning = Log WARNING
                                (customer_warning_head @ error_type descr code @
                                 ascii ''): '' @ descr @ ascii '', error_code='' @
                                 show_code code @ ascii '', user_id='' @ str_int user_id @
                                 ascii '', order_id='' @ order_id @ ascii '', status='' @
                                 order_status)
                          in case prune db user_id order_id descr code of
                               Inl e \<Rightarrow>
                                 ([Post request, warning,
                                   customer_send_failed e user_id order_id order_status], db)
                             | Inr (prune_events, db') \<Rightarrow>
                                 (Post request # warning # prune_events, db')))"

section \<open>\<open>setup_webhook.py\<close>\<close>

text \<open>
  Lines 28 and 96, the same expression in \<open>setup_webhook\<close> and \<open>check_webhook_status\<close>:
  \<open>backend_url.rstrip('/').replace('/api', '')\<close>.
\<close>

definition strip_api :: "ustr \<Rightarrow> ustr" where
  "strip_api backend_url = py_replace (ascii ''/api'') [] (rstrip (ascii ''/'') backend_url)"

text \<open>
  The request each function sends (printing and the reading of the answer are left out):
  with a bot token, \<open>setWebhook\<close> at the provider with the webhook URL; without, the setup
  endpoint of the backend with the backend URL as payload; for the status, a GET of the
  status endpoint.
\<close>

datatype webhook_request =
    SetWebhook ustr ustr
  | BackendSetup ustr ustr
  | StatusGet ustr

definition setup_webhook :: "ustr \<Rightarrow> ustr option \<Rightarrow> webhook_request" where
  "setup_webhook backend_url bot_token =
     (let backend_url = strip_api backend_url
      in if truthy_opt bot_token then
           let webhook_url = backend_url @ ascii ''/api/bot/webhook''
           in SetWebhook (api_url (str_or bot_token []) ''setWebhook'') webhook_url
         else
           let setup_url = backend_url @ ascii ''/api/bot/webhook/setup''
           in BackendSetup setup_url backend_url)"

definition check_webhook_status :: "ustr \<Rightarrow> webhook_request" where
  "check_webhook_status backend_url =
     (let backend_url = strip_api backend_url;
          status_url = backend_url @ ascii ''/api/bot/webhook/status''
      in StatusGet status_url)"

section \<open>Notions of the specification\<close>

text \<open>
  The classification as the specification words it: the extension decides when it is one
  of the image extensions or \<open>.pdf\<close>; the declared content type is consulted only when the
  extension is inconclusive.
\<close>

definition classify_spec :: "ustr \<Rightarrow> ustr option \<Rightarrow> attachment_kind" where
  "classify_spec receipt_filename receipt_content_type =
     (let file_extension = py_lower (path_suffix receipt_filename)
      in if file_extension \<in> set image_extensions then ImageKind
         else if file_extension = ascii ''.pdf'' then PdfKind
         else (case receipt_content_type of
                 None \<Rightarrow> DocumentKind
               | Some t \<Rightarrow>
                   if prefix (ascii ''image/'') t then ImageKind
                   else if t = ascii ''application/pdf'' then PdfKind
                   else DocumentKind))"

text \<open>The requests among the events, in order, and the log records among them.\<close>

fun posts :: "event list \<Rightarrow> request list" where
  "posts [] = []"
| "posts (Post r # es) = r # posts es"
| "posts (e # es) = posts es"


text \<open>
  A call reports success: it returns, its status is a success, its body parses and the
  provider's \<open>ok\<close> field is true.
\<close>

definition reports_ok :: "provider \<Rightarrow> request \<Rightarrow> bool" where
  "reports_ok client request =
     (case post_checked client request of Inr result \<Rightarrow> ok result = Some True | Inl e \<Rightarrow> False)"

text \<open>
  The events other than log records: what the notification did to the provider and to the
  stores.
\<close>

fun calls :: "event list \<Rightarrow> event list" where
  "calls [] = []"
| "calls (Log l m # es) = calls es"
| "calls (e # es) = e # calls es"

text \<open>The same provider, answering with another numeric \<open>error_code\<close>.\<close>

definition with_error_code :: "int option \<Rightarrow> provider \<Rightarrow> provider" where
  "with_error_code c client =
     (\<lambda>request. case client request of
        Inl e \<Rightarrow> Inl e
      | Inr response \<Rightarrow>
          Inr (response\<lparr>json := (case json response of
                                    Inl e \<Rightarrow> Inl e
                                  | Inr result \<Rightarrow> Inr (result\<lparr>error_code := c\<rparr>))\<rparr>))"

text \<open>
  The aggregate diagnostic of each fan-out for a failure count, and the recipient a request
  is addressed to.
\<close>

definition new_order_aggregate :: "ustr \<Rightarrow> nat \<Rightarrow> event" where
  "new_order_aggregate order_id k =
     Log ERROR (new_order_failed_head @ order_id @ ascii '' '' @ str_nat k @ admins_tail)"

definition accepted_aggregate :: "ustr \<Rightarrow> nat \<Rightarrow> event" where
  "accepted_aggregate order_id k =
     Log ERROR (accepted_failed_head @ order_id @ ascii '' '' @ str_nat k @ admins_tail)"

definition addressed_to :: "int \<Rightarrow> request \<Rightarrow> bool" where
  "addressed_to admin_id request =
     (case request of
        JsonPost url chat body markup \<Rightarrow> chat = admin_id
      | MultipartPost url field file_tuple chat caption \<Rightarrow> chat = str_int admin_id)"

text \<open>
  The delivery to one administrator as \<open>notify_admin_order_accepted\<close> runs it: the composed
  message and the receipt as fetched, handed to \<open>_send_notification_with_receipt\<close>.
\<close>

definition accepted_text ::
  "summation \<Rightarrow> catalogue \<Rightarrow> ustr \<Rightarrow> ustr \<Rightarrow> ustr \<Rightarrow> ustr \<Rightarrow> pynum \<Rightarrow> line_item list \<Rightarrow> ustr \<Rightarrow>
   ustr" where
  "accepted_text py_sum find_one order_id customer_name customer_phone delivery_address
       total_amount items delivery_time_slot =
     accepted_message py_sum order_id delivery_time_slot customer_name customer_phone
       delivery_address total_amount items
       (items_text (map (\<lambda>item. snd (item_detail find_one item)) items))"

definition accepted_delivery ::
  "provider \<Rightarrow> ustr \<Rightarrow> blob_store \<Rightarrow> ustr option \<Rightarrow> ustr \<Rightarrow> int \<Rightarrow> event list \<times> bool" where
  "accepted_delivery client token fs_get receipt_file_id message admin_id =
     (case snd (fetch_receipt fs_get receipt_file_id) of
        (receipt_data, receipt_filename, receipt_content_type) \<Rightarrow>
          send_notification_with_receipt client token admin_id message receipt_data
            receipt_filename receipt_content_type)"

text \<open>A request carries a message: as the text of \<open>sendMessage\<close> or as the caption of a file.\<close>

definition carries :: "ustr \<Rightarrow> request \<Rightarrow> bool" where
  "carries message request =
     (case request of
        JsonPost url chat body markup \<Rightarrow> body = message
      | MultipartPost url field file_tuple chat caption \<Rightarrow> caption = message)"

section \<open>Scenarios\<close>

text \<open>Fixed inputs on which the theorems below are run.\<close>

definition answer :: "nat \<Rightarrow> bool \<Rightarrow> int option \<Rightarrow> ustr option \<Rightarrow> response" where
  "answer status is_ok code descr =
     \<lparr>status_code = status, body_text = [], status_error = [],
      json = Inr \<lparr>ok = Some is_ok, error_code = code, description = descr\<rparr>\<rparr>"

definition always_ok :: provider where
  "always_ok = (\<lambda>request. Inr (answer 200 True None None))"

definition blocked_403 :: provider where
  "blocked_403 =
     (\<lambda>request. Inr (answer 403 False (Some 403)
                        (Some (ascii ''Forbidden: bot was blocked by the user''))))"

definition rate_limited_429 :: provider where
  "rate_limited_429 =
     (\<lambda>request. Inr (answer 429 False (Some 429) (Some (ascii ''Too Many Requests''))))"

definition one_admin :: settings where
  "one_admin = \<lparr>telegram_bot_token = Some (ascii ''T''), admin_ids = [7]\<rparr>"

definition two_admins :: settings where
  "two_admins = \<lparr>telegram_bot_token = Some (ascii ''T''), admin_ids = [7, 8]\<rparr>"


definition registry_up :: registry where
  "registry_up = \<lparr>truth = Inr True, customers = [42, 7], delete_error = None\<rparr>"

definition registry_down :: registry where
  "registry_down =
     \<lparr>truth = Inr True, customers = [42, 7],
      delete_error = Some (OtherError (ascii ''AutoReconnect'') (ascii ''connection closed''))\<rparr>"

text \<open>A handle without a truth test, as a database object of Motor 3 is.\<close>

definition no_truth_test :: exc where
  "no_truth_test =
     OtherError (ascii ''NotImplementedError'')
       (ascii ''Database objects do not implement truth value testing or bool()'')"

definition registry_motor :: registry where
  "registry_motor = \<lparr>truth = Inl no_truth_test, customers = [42, 7], delete_error = None\<rparr>"

definition order_ref :: ustr where
  "order_ref = ascii ''65a1f3c2d4e5f6a7b8c9d0e1''"



definition store_down :: blob_store where
  "store_down = (\<lambda>ref. Inl (OtherError (ascii ''NoFile'') (ascii ''no file in gridfs'')))"

definition catalogue_down :: catalogue where
  "catalogue_down = (\<lambda>p. Inl (OtherError (ascii ''AutoReconnect'') (ascii ''connection closed'')))"


definition tea_variant :: line_item where
  "tea_variant =
     \<lparr>product_id = Val (ascii ''p1''), variant_id = Val (ascii ''v1''), quantity = Val 1,
      product_name = Val (ascii ''Tea''), variant_name = Missing, price = Val (PyInt 700)\<rparr>"




section \<open>The amount formatter\<close>

lemma py_int_integral: "(x = of_int (py_int x)) = (frac x = 0)"
proof (cases "x < 0")
  case True
  have "(x = - of_int \<lfloor>- x\<rfloor>) = (frac (- x) = 0)"
    by (auto simp: frac_def)
  also have "\<dots> = (frac x = 0)"
    by (simp add: frac_eq_0_iff)
  finally show ?thesis using True by (simp add: py_int_def)
next
  case False
  then show ?thesis by (auto simp: py_int_def frac_def)
qed

lemma py_int_floor: "frac x = 0 \<Longrightarrow> py_int x = \<lfloor>x\<rfloor>"
  by (auto simp: py_int_def frac_eq_0_iff elim!: Ints_cases)

lemma rstrip_snoc: "rstrip cs (s @ [c]) = (if c \<in> set cs then rstrip cs s else s @ [c])"
  by (simp add: rstrip_def)

lemma str_nat_nonempty: "str_nat n \<noteq> []"
  by (subst str_nat.simps) simp

lemma str_nat_last: "last (str_nat n) = 48 + n mod 10"
  by (subst str_nat.simps) simp

lemma whole_snoc: "\<exists>ys d. sg @ str_nat q = ys @ [48 + d]"
proof -
  have "sg @ str_nat q = (sg @ butlast (str_nat q)) @ [48 + q mod 10]"
    using str_nat_nonempty [of q] str_nat_last [of q]
    by (metis append.assoc append_butlast_last_id)
  then show ?thesis by blast
qed

lemma strip_two_digits:
  assumes "a < 10" "b < 10"
  shows "rstrip [46] (rstrip [48] (sg @ str_nat q @ [46] @ [48 + a, 48 + b])) =
     (if a = 0 \<and> b = 0 then sg @ str_nat q
      else if b = 0 then sg @ str_nat q @ [46, 48 + a]
      else sg @ str_nat q @ [46, 48 + a, 48 + b])"
proof -
  obtain ys d where w: "sg @ str_nat q = ys @ [48 + d]"
    using whole_snoc by blast
  have e: "sg @ str_nat q @ [46] @ [48 + a, 48 + b] = (((ys @ [48 + d]) @ [46]) @ [48 + a]) @ [48 + b]"
    using w by simp
  have r: "sg @ str_nat q @ [46, 48 + a] = ((ys @ [48 + d]) @ [46]) @ [48 + a]"
          "sg @ str_nat q @ [46, 48 + a, 48 + b] = (((ys @ [48 + d]) @ [46]) @ [48 + a]) @ [48 + b]"
          "sg @ str_nat q = ys @ [48 + d]"
    using w by simp_all
  show ?thesis
    unfolding e r by (simp add: rstrip_snoc del: append_assoc)
qed

lemma format_amount_refines: "format_amount x = format_amount_spec x"
proof (cases "frac x = 0")
  case True
  then show ?thesis
    by (simp add: format_amount_def format_amount_spec_def py_int_integral py_int_floor)
next
  case False
  define c where "c = nat (round_half_even (\<bar>x\<bar> * 100))"
  define sg :: ustr where "sg = (if x < 0 then [45] else [])"
  have a: "c mod 100 div 10 < 10" and b: "c mod 10 < 10" by simp_all
  have z: "(c mod 100 = 0) = (c mod 100 div 10 = 0 \<and> c mod 10 = 0)"
  proof -
    have m: "c mod 10 = c mod 100 mod 10" by (simp add: mod_mod_cancel)
    have "c mod 100 = 10 * (c mod 100 div 10) + c mod 100 mod 10" by simp
    then show ?thesis
      unfolding m by (metis add_cancel_right_right mult_0_right div_0 mod_0 add.right_neutral)
  qed
  have f: "format_2f x = sg @ str_nat (c div 100) @ [46] @ [48 + c mod 100 div 10, 48 + c mod 10]"
    unfolding format_2f_def Let_def c_def sg_def by (rule refl)
  have "format_amount x = rstrip [46] (rstrip [48] (format_2f x))"
    using False
    by (simp only: format_amount_def py_int_integral ascii_def if_False list.map of_char_Char)
      simp
  also have "\<dots> = (if c mod 100 = 0 then sg @ str_nat (c div 100)
      else if c mod 10 = 0 then sg @ str_nat (c div 100) @ [46, 48 + c mod 100 div 10]
      else sg @ str_nat (c div 100) @ [46, 48 + c mod 100 div 10, 48 + c mod 10])"
    unfolding f strip_two_digits [OF a b] z by (simp only: if_False if_True split: if_splits)
  also have "\<dots> = format_amount_spec x"
    using False unfolding format_amount_spec_def Let_def c_def sg_def
    by (simp only: if_False append_assoc)
  finally show ?thesis .
qed

lemma str_nat_digits: "set (str_nat n) \<subseteq> {48..57}"
proof (induction n rule: str_nat.induct)
  case (1 n)
  show ?case
  proof (cases "n < 10")
    case True
    then show ?thesis by (subst str_nat.simps) simp
  next
    case False
    have "n mod 10 < 10" by simp
    then have "48 + n mod 10 \<in> {48..57}" by simp
    with False 1 show ?thesis by (subst str_nat.simps) simp
  qed
qed

lemma str_int_no_separator: "46 \<notin> set (str_int k)"
  using str_nat_digits [of "nat k"] str_nat_digits [of "nat (- k)"]
  by (auto simp: str_int_def)


lemma format_amount_of_int: "format_amount (of_int k) = str_int k"
  by (simp add: format_amount_refines format_amount_spec_def)

text \<open>
  C7. \<open>format_amount\<close> is a function of its argument alone. An amount whose fractional part
  is zero is rendered as its integer, with no separator; any other amount is its rendering
  with two fractional digits (hundredths, ties to even), from which trailing zeros and then
  a trailing separator are removed: the whole part alone when the hundredths are \<open>00\<close>, one
  fractional digit when they end in \<open>0\<close>, two otherwise. In particular 10 gives \<open>10\<close>, 10.5
  and 10.50 give \<open>10.5\<close>, 0 gives \<open>0\<close> and 3.14 gives \<open>3.14\<close> (for the decimal 3.14 and for
  the double nearest to it, 7070651414971679 / 2^51).
\<close>

theorem format_amount_rendering:
  "format_amount x = format_amount_spec x \<and>
   format_amount (of_int k) = str_int k \<and> 46 \<notin> set (str_int k) \<and>
   format_amount 10 = ascii ''10'' \<and>
   format_amount (21 / 2) = ascii ''10.5'' \<and>
   format_amount (1050 / 100) = ascii ''10.5'' \<and>
   format_amount 0 = ascii ''0'' \<and>
   format_amount (314 / 100) = ascii ''3.14'' \<and>
   format_amount (7070651414971679 / 2251799813685248) = ascii ''3.14''"
proof -
  have "format_amount 10 = ascii ''10''" by code_simp
  moreover have "format_amount (21 / 2) = ascii ''10.5''" by code_simp
  moreover have "format_amount (1050 / 100) = ascii ''10.5''" by code_simp
  moreover have "format_amount 0 = ascii ''0''" by code_simp
  moreover have "format_amount (314 / 100) = ascii ''3.14''" by code_simp
  moreover have "format_amount (7070651414971679 / 2251799813685248) = ascii ''3.14''"
    by code_simp
  ultimately show ?thesis
    using format_amount_refines [of x] format_amount_of_int [of k] str_int_no_separator [of k]
    by blast
qed

section \<open>The webhook tool\<close>

lemma replace_from_skip:
  "\<not> prefix old (c # cs) \<Longrightarrow> replace_from old new (c # cs) = c # replace_from old new cs"
  by simp

lemma replace_from_hit:
  "old \<noteq> [] \<Longrightarrow> replace_from old new (old @ r) = new @ replace_from old new r"
  by (cases old) simp_all

lemma prefix_api_append:
  "a \<noteq> [] \<Longrightarrow> prefix [47, 97, 112, 105] (a @ 47 # 97 # 112 # 105 # b) = prefix [47, 97, 112, 105::nat] a"
proof -
  assume "a \<noteq> []"
  then consider c1 where "a = [c1]" | c1 c2 where "a = [c1, c2]" | c1 c2 c3 where "a = [c1, c2, c3]"
    | c1 c2 c3 c4 r where "a = c1 # c2 # c3 # c4 # r"
    by (metis list.exhaust)
  then show ?thesis
    by cases auto
qed

lemma replace_api_append:
  "replace_from [47, 97, 112, 105] [] (a @ 47 # 97 # 112 # 105 # b) =
   replace_from [47, 97, 112, 105] [] a @ replace_from [47, 97, 112, 105] [] b"
proof (induction a rule: length_induct)
  case (1 a)
  show ?case
  proof (cases a)
    case Nil
    show ?thesis
      using replace_from_hit [of "[47, 97, 112, 105]" "[]" b] unfolding Nil by simp
  next
    case (Cons c cs)
    show ?thesis
    proof (cases "prefix [47, 97, 112, 105::nat] a")
      case True
      then obtain r where r: "a = [47, 97, 112, 105] @ r"
        by (auto simp: prefix_def)
      then have "length r < length a" by simp
      with 1 have ih: "replace_from [47, 97, 112, 105] [] (r @ 47 # 97 # 112 # 105 # b) =
        replace_from [47, 97, 112, 105] [] r @ replace_from [47, 97, 112, 105] [] b"
        by blast
      have "replace_from [47, 97, 112, 105] [] (a @ 47 # 97 # 112 # 105 # b) =
            replace_from [47, 97, 112, 105] [] (r @ 47 # 97 # 112 # 105 # b)"
        using replace_from_hit [of "[47, 97, 112, 105]" "[]" "r @ 47 # 97 # 112 # 105 # b"]
        unfolding r by simp
      moreover have "replace_from [47, 97, 112, 105] [] a = replace_from [47, 97, 112, 105] [] r"
        using replace_from_hit [of "[47, 97, 112, 105]" "[]" r] unfolding r by simp
      ultimately show ?thesis using ih by simp
    next
      case False
      have p: "\<not> prefix [47, 97, 112, 105::nat] (c # (cs @ 47 # 97 # 112 # 105 # b))"
        using False prefix_api_append [of a b] Cons by simp
      have q: "\<not> prefix [47, 97, 112, 105::nat] (c # cs)"
        using False Cons by simp
      have "length cs < length a" using Cons by simp
      with 1 have ih: "replace_from [47, 97, 112, 105] [] (cs @ 47 # 97 # 112 # 105 # b) =
        replace_from [47, 97, 112, 105] [] cs @ replace_from [47, 97, 112, 105] [] b"
        by blast
      show ?thesis
        unfolding Cons append_Cons replace_from_skip [OF p] replace_from_skip [OF q] ih ..
    qed
  qed
qed

lemma rstrip_api_append:
  "rstrip [47] (a @ 47 # 97 # 112 # 105 # b) = a @ 47 # 97 # 112 # 105 # rstrip [47] b"
  by (simp add: rstrip_def dropWhile_append)

lemma strip_api_append:
  "strip_api (a @ ascii ''/api'' @ b) = replace_from (ascii ''/api'') [] a @ strip_api b"
  unfolding strip_api_def py_replace_def
  by (simp add: ascii_def rstrip_api_append replace_api_append del: replace_from.simps)


lemma rstrip_slashes: "rstrip [47] (url @ replicate n 47) = rstrip [47] url"
proof (induction n)
  case 0
  then show ?case by simp
next
  case (Suc n)
  have "url @ replicate (Suc n) 47 = (url @ replicate n 47) @ [47]"
    by (simp add: replicate_append_same)
  then show ?case using Suc by (simp only: rstrip_snoc) simp
qed

text \<open>
  C10. The webhook tool first strips every trailing slash of the backend URL (and nothing
  else: a URL that does not end in a slash is left as it is) and then removes \<open>/api\<close>
  wherever it occurs in what remains, not only as a trailing path segment: a URL \<open>a/apib\<close>
  becomes \<open>a\<close> and \<open>b\<close>, each treated the same way, joined. \<open>setup_webhook\<close> (with and
  without a bot token) and \<open>check_webhook_status\<close> build the webhook, setup and status URLs
  from that string, so for \<open>https://x.example/apiary\<close> they start with
  \<open>https://x.exampleary\<close>, and \<open>https://x.example/api/\<close> becomes \<open>https://x.example\<close>.
\<close>

theorem strip_api_anywhere:
  "strip_api url = replace_from (ascii ''/api'') [] (rstrip (ascii ''/'') url) \<and>
   rstrip (ascii ''/'') [] = [] \<and>
   rstrip (ascii ''/'') (url @ [c]) = (if c = 47 then rstrip (ascii ''/'') url else url @ [c]) \<and>
   strip_api (url @ replicate n 47) = strip_api url \<and>
   strip_api (a @ ascii ''/api'' @ b) = replace_from (ascii ''/api'') [] a @ strip_api b \<and>
   setup_webhook url (Some (t # ts)) =
     SetWebhook (api_url (t # ts) ''setWebhook'') (strip_api url @ ascii ''/api/bot/webhook'') \<and>
   setup_webhook url None =
     BackendSetup (strip_api url @ ascii ''/api/bot/webhook/setup'') (strip_api url) \<and>
   check_webhook_status url = StatusGet (strip_api url @ ascii ''/api/bot/webhook/status'') \<and>
   strip_api (ascii ''https://x.example/apiary'') = ascii ''https://x.exampleary'' \<and>
   strip_api (ascii ''https://x.example/api/'') = ascii ''https://x.example'' \<and>
   strip_api (ascii ''https://x.example/apiary//'') = ascii ''https://x.exampleary'' \<and>
   strip_api (ascii ''https://x.example//api'') = ascii ''https://x.example/'' \<and>
   setup_webhook (ascii ''https://x.example/apiary'') (Some (ascii ''T'')) =
     SetWebhook (ascii ''https://api.telegram.org/botT/setWebhook'')
       (ascii ''https://x.exampleary/api/bot/webhook'') \<and>
   setup_webhook (ascii ''https://x.example/apiary'') None =
     BackendSetup (ascii ''https://x.exampleary/api/bot/webhook/setup'')
       (ascii ''https://x.exampleary'') \<and>
   check_webhook_status (ascii ''https://x.example/apiary'') =
     StatusGet (ascii ''https://x.exampleary/api/bot/webhook/status'') \<and>
   check_webhook_status (ascii ''https://x.example/api/'') =
     StatusGet (ascii ''https://x.example/api/bot/webhook/status'')"
proof -
  have s: "ascii ''/'' = [47]" "ascii ''/api'' \<noteq> []"
    by (simp_all add: ascii_def)
  have d: "strip_api url = replace_from (ascii ''/api'') [] (rstrip (ascii ''/'') url)" for url
    by (simp add: strip_api_def py_replace_def s(2))
  have r0: "rstrip (ascii ''/'') [] = []"
    by (simp add: rstrip_def)
  have r1: "rstrip (ascii ''/'') (url @ [c]) =
      (if c = 47 then rstrip (ascii ''/'') url else url @ [c])"
    unfolding s(1) rstrip_snoc by simp
  have r2: "strip_api (url @ replicate n 47) = strip_api url"
    unfolding d s(1) rstrip_slashes ..
  have e: "strip_api (ascii ''https://x.example/apiary'') = ascii ''https://x.exampleary''"
    by (simp add: strip_api_def py_replace_def ascii_def rstrip_def)
  have e2: "strip_api (ascii ''https://x.example/api/'') = ascii ''https://x.example''"
    by (simp add: strip_api_def py_replace_def ascii_def rstrip_def)
  have e3: "strip_api (ascii ''https://x.example/apiary//'') = ascii ''https://x.exampleary''"
    by (simp add: strip_api_def py_replace_def ascii_def rstrip_def)
  have e4: "strip_api (ascii ''https://x.example//api'') = ascii ''https://x.example/''"
    by (simp add: strip_api_def py_replace_def ascii_def rstrip_def)
  have g1: "setup_webhook url (Some (t # ts)) =
     SetWebhook (api_url (t # ts) ''setWebhook'') (strip_api url @ ascii ''/api/bot/webhook'')"
    for url t ts
    by (simp add: setup_webhook_def truthy_opt_def str_or_def Let_def)
  have g2: "setup_webhook url None =
     BackendSetup (strip_api url @ ascii ''/api/bot/webhook/setup'') (strip_api url)" for url
    by (simp add: setup_webhook_def truthy_opt_def Let_def)
  have g3: "check_webhook_status url =
     StatusGet (strip_api url @ ascii ''/api/bot/webhook/status'')" for url
    by (simp add: check_webhook_status_def Let_def)
  have x1: "setup_webhook (ascii ''https://x.example/apiary'') (Some (ascii ''T'')) =
     SetWebhook (ascii ''https://api.telegram.org/botT/setWebhook'')
       (ascii ''https://x.exampleary/api/bot/webhook'')"
    using g1 [of "ascii ''https://x.example/apiary''" 84 "[]"] unfolding e
    by (simp add: ascii_def api_url_def)
  have x2: "setup_webhook (ascii ''https://x.example/apiary'') None =
     BackendSetup (ascii ''https://x.exampleary/api/bot/webhook/setup'')
       (ascii ''https://x.exampleary'')"
    unfolding g2 e by (simp add: ascii_def)
  have x3: "check_webhook_status (ascii ''https://x.example/apiary'') =
     StatusGet (ascii ''https://x.exampleary/api/bot/webhook/status'')"
    unfolding g3 e by (simp add: ascii_def)
  have x4: "check_webhook_status (ascii ''https://x.example/api/'') =
     StatusGet (ascii ''https://x.example/api/bot/webhook/status'')"
    unfolding g3 e2 by (simp add: ascii_def)
  show ?thesis
    apply (intro conjI)
    subgoal by (rule d)
    subgoal by (rule r0)
    subgoal by (rule r1)
    subgoal by (rule r2)
    subgoal by (rule strip_api_append)
    subgoal by (rule g1)
    subgoal by (rule g2)
    subgoal by (rule g3)
    subgoal by (rule e)
    subgoal by (rule e2)
    subgoal by (rule e3)
    subgoal by (rule e4)
    subgoal by (rule x1)
    subgoal by (rule x2)
    subgoal by (rule x3)
    subgoal by (rule x4)
    done
qed

section \<open>Attachment classification\<close>

lemma suffix_png: "py_lower (path_suffix (ascii ''receipt.PNG'')) = ascii ''.png''"
  by (simp add: path_suffix_def path_name_def ascii_def py_lower_def lower_cp_def)

lemma suffix_scan: "py_lower (path_suffix (ascii ''scan'')) = []"
  by (simp add: path_suffix_def path_name_def ascii_def py_lower_def lower_cp_def)

lemma suffix_bin: "py_lower (path_suffix (ascii ''data.bin'')) = ascii ''.bin''"
  by (simp add: path_suffix_def path_name_def ascii_def py_lower_def lower_cp_def)

lemma suffix_pdf: "py_lower (path_suffix (ascii ''scan.pdf'')) = ascii ''.pdf''"
  by (simp add: path_suffix_def path_name_def ascii_def py_lower_def lower_cp_def)

lemma pdf_not_image: "ascii ''.pdf'' \<notin> set image_extensions"
  by (simp add: image_extensions_def ascii_def)

text \<open>
  C8, as the specification states it, fails: the content type is not only a fallback. A
  receipt named \<open>scan.pdf\<close> with the declared type \<open>image/png\<close> is a PDF by its extension,
  but the source takes the image branch and sends it to the photo endpoint.
\<close>

theorem classification_counterexample:
  "classify_spec (ascii ''scan.pdf'') (Some (ascii ''image/png'')) = PdfKind \<and>
   receipt_kind (ascii ''scan.pdf'') (Some (ascii ''image/png'')) = ImageKind \<and>
   file_endpoint (ascii ''scan.pdf'') (Some (ascii ''image/png'')) = (''sendPhoto'', ''photo'')"
  by (simp add: classify_spec_def receipt_kind_def file_endpoint_def is_image_def suffix_pdf
      pdf_not_image) (simp add: ascii_def)

text \<open>
  C8, amended. A receipt is an image when its lower-cased extension is one of \<open>.jpg .jpeg
  .png .webp .heic .heif\<close> or its declared content type starts with \<open>image/\<close>, whatever
  the extension; otherwise a PDF when the extension is \<open>.pdf\<close> or the content type is
  \<open>application/pdf\<close>; otherwise a generic document. This is the specification's
  classification except for a \<open>.pdf\<close> name with an image content type. Images go to
  \<open>sendPhoto\<close>, the rest to \<open>sendDocument\<close>. \<open>receipt.PNG\<close> with no content type is an image,
  \<open>scan\<close> with \<open>application/pdf\<close> a PDF, \<open>data.bin\<close> with \<open>text/plain\<close> a generic document.
\<close>

theorem receipt_kind_by_extension_or_type:
  "receipt_kind name ct =
     (if py_lower (path_suffix name) \<in> set image_extensions \<or>
         (\<exists>t. ct = Some t \<and> prefix (ascii ''image/'') t) then ImageKind
      else if py_lower (path_suffix name) = ascii ''.pdf'' \<or> ct = Some (ascii ''application/pdf'')
      then PdfKind else DocumentKind) \<and>
   receipt_kind name ct =
     (if py_lower (path_suffix name) = ascii ''.pdf'' \<and>
         (\<exists>t. ct = Some t \<and> prefix (ascii ''image/'') t) then ImageKind
      else classify_spec name ct) \<and>
   fst (file_endpoint name ct) =
     (if receipt_kind name ct = ImageKind then ''sendPhoto'' else ''sendDocument'') \<and>
   receipt_kind (ascii ''receipt.PNG'') None = ImageKind \<and>
   receipt_kind (ascii ''scan'') (Some (ascii ''application/pdf'')) = PdfKind \<and>
   receipt_kind (ascii ''data.bin'') (Some (ascii ''text/plain'')) = DocumentKind"
proof -
  have i: "(\<exists>t. ct = Some t \<and> prefix (ascii ''image/'') t) =
      (case ct of None \<Rightarrow> False | Some t \<Rightarrow> t \<noteq> [] \<and> prefix (ascii ''image/'') t)"
    by (cases ct) (auto simp: ascii_def)
  have n: "\<not> prefix (ascii ''image/'') (ascii ''application/pdf'')"
    by (simp add: ascii_def)
  have a: "receipt_kind name ct =
     (if py_lower (path_suffix name) \<in> set image_extensions \<or>
         (\<exists>t. ct = Some t \<and> prefix (ascii ''image/'') t) then ImageKind
      else if py_lower (path_suffix name) = ascii ''.pdf'' \<or> ct = Some (ascii ''application/pdf'')
      then PdfKind else DocumentKind)"
    unfolding i by (simp add: receipt_kind_def is_image_def is_pdf_def)
  have b: "receipt_kind name ct =
     (if py_lower (path_suffix name) = ascii ''.pdf'' \<and>
         (\<exists>t. ct = Some t \<and> prefix (ascii ''image/'') t) then ImageKind
      else classify_spec name ct)"
    unfolding a using n pdf_not_image
    by (cases ct) (auto simp: classify_spec_def Let_def)
  have c: "fst (file_endpoint name ct) =
     (if receipt_kind name ct = ImageKind then ''sendPhoto'' else ''sendDocument'')"
    by (cases "receipt_kind name ct") (simp_all add: file_endpoint_def)
  have e1: "receipt_kind (ascii ''receipt.PNG'') None = ImageKind"
    by (simp add: receipt_kind_def is_image_def suffix_png image_extensions_def)
  have e2: "receipt_kind (ascii ''scan'') (Some (ascii ''application/pdf'')) = PdfKind"
    by (simp add: receipt_kind_def is_image_def is_pdf_def suffix_scan image_extensions_def n)
      (simp add: ascii_def)
  have e3: "receipt_kind (ascii ''data.bin'') (Some (ascii ''text/plain'')) = DocumentKind"
    by (simp add: receipt_kind_def is_image_def is_pdf_def suffix_bin image_extensions_def)
      (simp add: ascii_def)
  show ?thesis using a b c e1 e2 e3 by blast
qed

section \<open>The customer status message\<close>

lemma statuses_distinct: "distinct [status_new, status_accepted, status_rejected]"
  by (simp add: status_new_def status_accepted_def status_rejected_def)

text \<open>
  C9. The customer message is one of four templates chosen by the status string: the
  acknowledgment for the status "new"; for "accepted" the text with the delivery time slot
  when a non-empty one is given, else the short acknowledgment; for "rejected" the rejection
  text, followed by the reason when a non-empty one is given; for every other string the
  "status changed" text followed by that string. The three status words differ, so one
  template applies. In all cases the footer follows: the last six characters of the order
  id (the whole id when shorter) and the status string as given.
\<close>

theorem customer_message_templates:
  "customer_message order_id st reason slot =
     (if st = status_new then received_text
      else if st = status_accepted then
        (case slot of
           Some (c # cs) \<Rightarrow> accepted_slot_head @ (c # cs) @ ascii ''*.''
         | _ \<Rightarrow> accepted_short_text)
      else if st = status_rejected then
        (case reason of
           Some (c # cs) \<Rightarrow> rejected_text @ reason_head @ (c # cs)
         | _ \<Rightarrow> rejected_text)
      else changed_head @ st) @
     footer_order @ last6 order_id @ footer_status @ st @ [0x2A] \<and>
   distinct [status_new, status_accepted, status_rejected] \<and>
   last6 order_id = (if length order_id \<le> 6 then order_id else drop (length order_id - 6) order_id) \<and>
   length (last6 order_id) = min 6 (length order_id)"
proof -
  have m: "status_message st reason slot =
     (if st = status_new then received_text
      else if st = status_accepted then
        (case slot of
           Some (c # cs) \<Rightarrow> accepted_slot_head @ (c # cs) @ ascii ''*.''
         | _ \<Rightarrow> accepted_short_text)
      else if st = status_rejected then
        (case reason of
           Some (c # cs) \<Rightarrow> rejected_text @ reason_head @ (c # cs)
         | _ \<Rightarrow> rejected_text)
      else changed_head @ st)"
    by (simp add: status_message_def truthy_opt_def str_or_def split: option.split list.split)
  have l: "last6 order_id =
      (if length order_id \<le> 6 then order_id else drop (length order_id - 6) order_id)"
    by (simp add: last6_def)
  have n: "length (last6 order_id) = min 6 (length order_id)"
    by (simp add: last6_def)
  show ?thesis
    unfolding customer_message_def m using statuses_distinct l n by simp
qed



section \<open>Disabled admin notifications\<close>

text \<open>
  C6. When the bot credential is absent or empty, or no administrator is configured, both
  admin notifications return at once: no catalogue or blob-store read, no request to the
  provider, no log record.
\<close>

theorem admin_notifications_disabled:
  assumes "\<not> truthy_opt (telegram_bot_token settings) \<or> admin_ids settings = []"
  shows "notify_admins_new_order settings client order_id = [] \<and>
         notify_admin_order_accepted py_sum settings client find_one fs_get order_id customer_name
           customer_phone delivery_address total_amount items receipt_file_id
           delivery_time_slot = []"
  using assms
  by (auto simp: notify_admins_new_order_def notify_admin_order_accepted_def truthy_opt_def
      split: option.splits)

theorem admin_notifications_disabled_witness:
  "notify_admins_new_order \<lparr>telegram_bot_token = None, admin_ids = [1, 2]\<rparr>
     (\<lambda>r. Inl (TimeoutException [])) (ascii ''64f0c2a1b3'') = [] \<and>
   notify_admin_order_accepted sum_plain \<lparr>telegram_bot_token = Some (ascii ''T''), admin_ids = []\<rparr>
     (\<lambda>r. Inl (TimeoutException [])) (\<lambda>p. Inr None) (\<lambda>r. Inl (OtherError [] []))
     (ascii ''64f0c2a1b3'') (ascii ''A'') (ascii ''1'') (ascii ''S'') (PyInt 1500) [] None (ascii ''13:00'') = []"
  using admin_notifications_disabled [of "\<lparr>telegram_bot_token = None, admin_ids = [1, 2]\<rparr>"]
    admin_notifications_disabled [of "\<lparr>telegram_bot_token = Some (ascii ''T''), admin_ids = []\<rparr>"]
  by (simp add: truthy_opt_def)

section \<open>The delivery fee of the accepted-order message\<close>




lemma sum_plain_single: "sum_plain [PyInt i] = PyInt i"
  by (simp add: sum_plain_def py_add_def)











section \<open>Pruning of unreachable customers\<close>

lemma contains_sublist: "contains p s = sublist p s"
  by (induction s) (auto simp: sublist_Cons_right)

lemma is_invalid_user_iff:
  "is_invalid_user d = (\<exists>p \<in> set invalid_user_phrases. sublist p (py_lower d))"
  by (simp add: is_invalid_user_def list_ex_iff contains_sublist)

lemma is_blocked_iff:
  "is_blocked d = (\<exists>p \<in> set blocked_phrases. sublist p (py_lower d))"
  by (simp add: is_blocked_def list_ex_iff contains_sublist)

lemma prune_none: "prune None uid oid d c = Inr ([], None)"
  by (simp add: prune_def)

lemma prune_raises: "truth store = Inl e \<Longrightarrow> prune (Some store) uid oid d c = Inl e"
  by (simp add: prune_def)

lemma prune_falsy: "truth store = Inr False \<Longrightarrow> prune (Some store) uid oid d c = Inr ([], Some store)"
  by (simp add: prune_def)

lemma prune_unclassified:
  "truth store = Inr True \<Longrightarrow> \<not> (is_invalid_user d \<or> is_blocked d) \<Longrightarrow>
   prune (Some store) uid oid d c = Inr ([], Some store)"
  by (simp add: prune_def)

lemma prune_deleted:
  "truth store = Inr True \<Longrightarrow> is_invalid_user d \<or> is_blocked d \<Longrightarrow> delete_error store = None \<Longrightarrow>
   prune (Some store) uid oid d c =
     Inr (DeleteOne uid #
          (if uid \<in> set (customers store)
           then [Log INFO (pruned_head @ str_int uid @ ascii '', reason='' @ error_type d c @
                           ascii '', order_id='' @ oid)]
           else []),
          Some (store\<lparr>customers := remove1 uid (customers store)\<rparr>))"
  by (auto simp: prune_def delete_one_def remove1_idem)

lemma prune_delete_failed:
  "truth store = Inr True \<Longrightarrow> is_invalid_user d \<or> is_blocked d \<Longrightarrow>
   delete_error store = Some e \<Longrightarrow>
   prune (Some store) uid oid d c =
     Inr ([DeleteOne uid,
           Log ERROR (prune_failed_head @ str_int uid @ ascii '', order_id='' @ oid @
                      ascii '', error='' @ exc_str e)],
          Some store)"
  by (auto simp: prune_def delete_one_def)

lemma send_failed_not_delete:
  "DeleteOne x \<noteq> customer_send_failed e u oid st"
  "customer_send_failed e u oid st \<noteq> DeleteOne x"
  by (cases e; simp add: customer_send_failed_def Let_def)+

lemma calls_send_failed: "calls (customer_send_failed e u oid st # es) = calls es"
  by (cases e) (simp_all add: customer_send_failed_def Let_def)

text \<open>
  What one run leaves behind, by the answer of the provider and the state of the handle:
  the events after the request, and the registry.
\<close>

lemma customer_run:
  assumes "telegram_bot_token settings = Some token" and "token \<noteq> []"
  shows "notify_customer_order_status settings client db user_id order_id st reason slot =
     (let request = JsonPost (api_url token ''sendMessage'') user_id
                      (customer_message order_id st reason slot) None
      in case client request of
           Inl e \<Rightarrow> ([Post request, customer_send_failed e user_id order_id st], db)
         | Inr response \<Rightarrow>
             (case json response of
                Inl e \<Rightarrow> ([Post request, customer_send_failed e user_id order_id st], db)
              | Inr result \<Rightarrow>
                  if ok result = Some True then ([Post request], db)
                  else
                    (case prune db user_id order_id (error_description result)
                            (error_code result) of
                       Inl e \<Rightarrow>
                         ([Post request,
                           Log WARNING
                             (customer_warning_head @
                              error_type (error_description result) (error_code result) @
                              ascii ''): '' @ error_description result @
                              ascii '', error_code='' @ show_code (error_code result) @
                              ascii '', user_id='' @ str_int user_id @
                              ascii '', order_id='' @ order_id @ ascii '', status='' @ st),
                           customer_send_failed e user_id order_id st], db)
                     | Inr (prune_events, db') \<Rightarrow>
                         (Post request #
                          Log WARNING
                            (customer_warning_head @
                             error_type (error_description result) (error_code result) @
                             ascii ''): '' @ error_description result @
                             ascii '', error_code='' @ show_code (error_code result) @
                             ascii '', user_id='' @ str_int user_id @
                             ascii '', order_id='' @ order_id @ ascii '', status='' @ st) #
                          prune_events, db'))))"
  using assms
  by (simp add: notify_customer_order_status_def Let_def split: sum.splits prod.splits)

lemma refused_run:
  assumes "telegram_bot_token settings = Some token" and "token \<noteq> []"
    and "client (JsonPost (api_url token ''sendMessage'') user_id
                   (customer_message order_id st reason slot) None) = Inr response"
    and "json response = Inr result" and "ok result \<noteq> Some True"
  shows "notify_customer_order_status settings client db user_id order_id st reason slot =
     (case prune db user_id order_id (error_description result) (error_code result) of
        Inl e \<Rightarrow>
          ([Post (JsonPost (api_url token ''sendMessage'') user_id
                    (customer_message order_id st reason slot) None),
            Log WARNING
              (customer_warning_head @
               error_type (error_description result) (error_code result) @
               ascii ''): '' @ error_description result @
               ascii '', error_code='' @ show_code (error_code result) @
               ascii '', user_id='' @ str_int user_id @
               ascii '', order_id='' @ order_id @ ascii '', status='' @ st),
            customer_send_failed e user_id order_id st], db)
      | Inr (prune_events, db') \<Rightarrow>
          (Post (JsonPost (api_url token ''sendMessage'') user_id
                   (customer_message order_id st reason slot) None) #
           Log WARNING
             (customer_warning_head @
              error_type (error_description result) (error_code result) @
              ascii ''): '' @ error_description result @
              ascii '', error_code='' @ show_code (error_code result) @
              ascii '', user_id='' @ str_int user_id @
              ascii '', order_id='' @ order_id @ ascii '', status='' @ st) #
           prune_events, db'))"
  unfolding customer_run [OF assms(1,2)] Let_def using assms(3,4,5) by simp

lemma unanswered_run:
  assumes "telegram_bot_token settings = Some token" and "token \<noteq> []"
    and "case client (JsonPost (api_url token ''sendMessage'') user_id
                   (customer_message order_id st reason slot) None) of
           Inl e \<Rightarrow> True
         | Inr response \<Rightarrow>
             (case json response of Inl e \<Rightarrow> True | Inr result \<Rightarrow> ok result = Some True)"
  shows "calls (fst (notify_customer_order_status settings client db user_id order_id st reason
                       slot)) =
           [Post (JsonPost (api_url token ''sendMessage'') user_id
                    (customer_message order_id st reason slot) None)] \<and>
         snd (notify_customer_order_status settings client db user_id order_id st reason slot) = db"
  unfolding customer_run [OF assms(1,2)] Let_def using assms(3)
  by (auto simp: calls_send_failed split: sum.splits)

text \<open>The five states of the handle, for an answer that is refused.\<close>

lemma refused_outcome:
  fixes db :: "registry option"
  assumes "telegram_bot_token settings = Some token" and "token \<noteq> []"
    and "client (JsonPost (api_url token ''sendMessage'') user_id
                   (customer_message order_id st reason slot) None) = Inr response"
    and "json response = Inr result" and "ok result \<noteq> Some True"
  defines "run \<equiv> notify_customer_order_status settings client db user_id order_id st reason slot"
  defines "request \<equiv> JsonPost (api_url token ''sendMessage'') user_id
                   (customer_message order_id st reason slot) None"
  defines "classified \<equiv> is_invalid_user (error_description result) \<or>
                         is_blocked (error_description result)"
  shows "calls (fst run) =
           (if (\<exists>store. db = Some store \<and> truth store = Inr True) \<and> classified
            then [Post request, DeleteOne user_id] else [Post request])"
    and "snd run =
           (case db of
              None \<Rightarrow> None
            | Some store \<Rightarrow>
                if truth store = Inr True \<and> classified \<and> delete_error store = None
                then Some (store\<lparr>customers := remove1 user_id (customers store)\<rparr>)
                else Some store)"
    and "\<And>store e. db = Some store \<Longrightarrow> truth store = Inl e \<Longrightarrow>
           last (fst run) = customer_send_failed e user_id order_id st \<and> length (fst run) = 3"
    and "\<And>store e. db = Some store \<Longrightarrow> truth store = Inr True \<Longrightarrow> classified \<Longrightarrow>
           delete_error store = Some e \<Longrightarrow>
           last (fst run) =
             Log ERROR (prune_failed_head @ str_int user_id @ ascii '', order_id='' @
                        order_id @ ascii '', error='' @ exc_str e)"
proof -
  note r = refused_run [where client = client and user_id = user_id and order_id = order_id
      and st = st and reason = reason and slot = slot and db = db, OF assms(1-5),
      folded request_def run_def]
  consider (none) "db = None"
    | (raises) store e where "db = Some store" "truth store = Inl e"
    | (falsy) store where "db = Some store" "truth store = Inr False"
    | (plain) store where "db = Some store" "truth store = Inr True" "\<not> classified"
    | (deleted) store where "db = Some store" "truth store = Inr True" "classified"
        "delete_error store = None"
    | (failed) store e where "db = Some store" "truth store = Inr True" "classified"
        "delete_error store = Some e"
  proof (cases db)
    case None
    then show ?thesis using none by simp
  next
    case (Some store)
    show ?thesis
    proof (cases "truth store")
      case (Inl e)
      then show ?thesis using Some raises by simp
    next
      case (Inr b)
      then show ?thesis
        using Some falsy plain deleted failed
        by (cases b; cases classified; cases "delete_error store") auto
    qed
  qed
  note c = this
  show "calls (fst run) =
           (if (\<exists>store. db = Some store \<and> truth store = Inr True) \<and> classified
            then [Post request, DeleteOne user_id] else [Post request])"
    using c
  proof cases
    case none
    then show ?thesis by (simp add: r prune_none)
  next
    case raises
    then show ?thesis by (simp add: r prune_raises calls_send_failed)
  next
    case falsy
    then show ?thesis by (simp add: r prune_falsy)
  next
    case plain
    then show ?thesis
      using prune_unclassified [of store "error_description result"]
      by (simp add: r classified_def)
  next
    case deleted
    then show ?thesis
      using prune_deleted [of store "error_description result"]
      by (simp add: r classified_def)
  next
    case failed
    then show ?thesis
      using prune_delete_failed [of store "error_description result"]
      by (simp add: r classified_def)
  qed
  show "snd run =
           (case db of
              None \<Rightarrow> None
            | Some store \<Rightarrow>
                if truth store = Inr True \<and> classified \<and> delete_error store = None
                then Some (store\<lparr>customers := remove1 user_id (customers store)\<rparr>)
                else Some store)"
    using c
  proof cases
    case none
    then show ?thesis by (simp add: r prune_none)
  next
    case raises
    then show ?thesis by (simp add: r prune_raises)
  next
    case falsy
    then show ?thesis by (simp add: r prune_falsy)
  next
    case plain
    then show ?thesis
      using prune_unclassified [of store "error_description result"]
      by (simp add: r classified_def)
  next
    case deleted
    then show ?thesis
      using prune_deleted [of store "error_description result"]
      by (simp add: r classified_def)
  next
    case failed
    then show ?thesis
      using prune_delete_failed [of store "error_description result"]
      by (simp add: r classified_def)
  qed
  show "last (fst run) = customer_send_failed e user_id order_id st \<and> length (fst run) = 3"
    if "db = Some store" "truth store = Inl e" for store e
    using that by (simp add: r prune_raises)
  show "last (fst run) =
             Log ERROR (prune_failed_head @ str_int user_id @ ascii '', order_id='' @
                        order_id @ ascii '', error='' @ exc_str e)"
    if "db = Some store" "truth store = Inr True" "classified" "delete_error store = Some e"
    for store e
    using that prune_delete_failed [of store "error_description result"]
    by (simp add: r classified_def)
qed

lemma delete_in_calls: "(DeleteOne u \<in> set es) = (DeleteOne u \<in> set (calls es))"
  by (induction es rule: calls.induct) auto

lemma error_description_code: "error_description (result\<lparr>error_code := c\<rparr>) = error_description result"
  by (simp add: error_description_def)

lemma one_admin_token:
  "telegram_bot_token one_admin = Some (ascii ''T'')" "ascii ''T'' \<noteq> []"
  by (simp_all add: one_admin_def ascii_def)

lemma blocked_403_classified:
  "is_blocked (ascii ''Forbidden: bot was blocked by the user'')"
  by (simp add: is_blocked_def blocked_phrases_def py_lower_def lower_cp_def ascii_def)

lemma rate_limit_unclassified:
  "\<not> is_blocked (ascii ''Too Many Requests'')" "\<not> is_invalid_user (ascii ''Too Many Requests'')"
  by (simp_all add: is_blocked_def blocked_phrases_def is_invalid_user_def
      invalid_user_phrases_def py_lower_def lower_cp_def ascii_def)

lemma kelvin_sign_classified: "is_blocked (ascii ''BLOC'' @ [0x212A] @ ascii ''ED'')"
  by (simp add: is_blocked_def blocked_phrases_def py_lower_def lower_cp_def ascii_def)

lemma scenario_answers:
  "blocked_403 r = Inr (answer 403 False (Some 403)
      (Some (ascii ''Forbidden: bot was blocked by the user'')))"
  "rate_limited_429 r = Inr (answer 429 False (Some 429) (Some (ascii ''Too Many Requests'')))"
  "json (answer n b c d) = Inr \<lparr>ok = Some b, error_code = c, description = d\<rparr>"
  "error_description \<lparr>ok = k, error_code = c, description = Some t\<rparr> = t"
  by (simp_all add: blocked_403_def rate_limited_429_def answer_def error_description_def)

text \<open>
  C2. In the customer notification, once the request is sent (the bot credential is set),
  the customer record of the recipient, and no other, is deleted exactly when the provider
  answers, the answer's \<open>ok\<close> is not true, a registry handle was supplied of which the truth
  test gives true, and the lower-cased description contains one of the invalid-recipient
  phrases or one of the blocked phrases. That a handle was supplied is not enough: line 441
  tests its truth. When that test raises, as it does for a database object of Motor 3,
  nothing is deleted whatever the description says: the only call is the request, the
  exception is logged last by the handler of line 467, and the registry is unchanged.
  A timeout or any other exception of the call, or an answer that does not parse, deletes
  nothing. The numeric \<open>error_code\<close> changes only log text: with any other code the same
  requests and deletions happen and the registry ends the same, so a 429 or a 400 deletes
  nothing by itself and only the description decides. Without a deletion the
  registry is unchanged; a deletion that succeeds removes the record; a deletion that raises
  is logged as an error, last, and the registry is unchanged.
\<close>

theorem pruning_needs_truthy_handle:
  assumes "telegram_bot_token settings = Some token" and "token \<noteq> []"
  shows
    "let request = JsonPost (api_url token ''sendMessage'') user_id
                     (customer_message order_id st reason slot) None;
         run = (\<lambda>provider. notify_customer_order_status settings provider db user_id order_id st
                              reason slot)
     in (DeleteOne u \<in> set (fst (run client))) =
          (u = user_id \<and> (\<exists>store. db = Some store \<and> truth store = Inr True) \<and>
           (case client request of
              Inl e \<Rightarrow> False
            | Inr response \<Rightarrow>
                (case json response of
                   Inl e \<Rightarrow> False
                 | Inr result \<Rightarrow>
                     ok result \<noteq> Some True \<and>
                     (is_invalid_user (error_description result) \<or>
                      is_blocked (error_description result))))) \<and>
        is_invalid_user d = (\<exists>p \<in> set invalid_user_phrases. sublist p (py_lower d)) \<and>
        is_blocked d = (\<exists>p \<in> set blocked_phrases. sublist p (py_lower d)) \<and>
        calls (fst (run (with_error_code c client))) = calls (fst (run client)) \<and>
        snd (run (with_error_code c client)) = snd (run client) \<and>
        (DeleteOne user_id \<notin> set (fst (run client)) \<longrightarrow> snd (run client) = db) \<and>
        (\<forall>store. db = Some store \<and> delete_error store = None \<and>
                 DeleteOne user_id \<in> set (fst (run client)) \<longrightarrow>
                 snd (run client) = Some (store\<lparr>customers := remove1 user_id (customers store)\<rparr>)) \<and>
        (\<forall>store e. db = Some store \<and> delete_error store = Some e \<and>
                 DeleteOne user_id \<in> set (fst (run client)) \<longrightarrow>
                 snd (run client) = db \<and>
                 last (fst (run client)) =
                   Log ERROR (prune_failed_head @ str_int user_id @ ascii '', order_id='' @
                              order_id @ ascii '', error='' @ exc_str e)) \<and>
        (\<forall>store e response result.
           db = Some store \<and> truth store = Inl e \<and> client request = Inr response \<and>
           json response = Inr result \<and> ok result \<noteq> Some True \<longrightarrow>
           calls (fst (run client)) = [Post request] \<and> snd (run client) = db \<and>
           last (fst (run client)) = customer_send_failed e user_id order_id st)"
proof -
  define request where "request = JsonPost (api_url token ''sendMessage'') user_id
                     (customer_message order_id st reason slot) None"
  define run where "run = (\<lambda>provider. notify_customer_order_status settings provider db user_id
                              order_id st reason slot)"
  define truthy where "truthy = (\<exists>store. db = Some store \<and> truth store = Inr True)"
  define verdict where "verdict = (\<lambda>p :: provider. case p request of
      Inl e \<Rightarrow> None
    | Inr response \<Rightarrow>
        (case json response of
           Inl e \<Rightarrow> None
         | Inr result \<Rightarrow> if ok result = Some True then None
                          else Some (error_description result)))"
  have unanswered: "calls (fst (run p)) = [Post request] \<and> snd (run p) = db"
    if "verdict p = None" for p
  proof -
    have "case p request of
           Inl e \<Rightarrow> True
         | Inr response \<Rightarrow>
             (case json response of Inl e \<Rightarrow> True | Inr result \<Rightarrow> ok result = Some True)"
      using that by (auto simp: verdict_def split: sum.splits if_splits)
    then show ?thesis
      unfolding run_def request_def
      by (rule unanswered_run [where client = p, OF assms])
  qed
  have refused: "\<exists>response result. p request = Inr response \<and> json response = Inr result \<and>
      ok result \<noteq> Some True \<and> error_description result = t"
    if "verdict p = Some t" for p t
    using that by (auto simp: verdict_def split: sum.splits if_splits)
  have K: "calls (fst (run p)) =
      (case verdict p of
         None \<Rightarrow> [Post request]
       | Some t \<Rightarrow> if truthy \<and> (is_invalid_user t \<or> is_blocked t)
                   then [Post request, DeleteOne user_id] else [Post request])" for p
  proof (cases "verdict p")
    case None
    then show ?thesis using unanswered [of p] by simp
  next
    case (Some t)
    from refused [OF Some] obtain response result where
      r: "p request = Inr response" "json response = Inr result" "ok result \<noteq> Some True"
      "error_description result = t"
      by blast
    show ?thesis
      using refused_outcome(1) [where client = p and db = db and user_id = user_id
          and order_id = order_id and st = st and reason = reason and slot = slot,
          OF assms r(1) [unfolded request_def] r(2,3)]
      by (simp add: Some r(4) run_def request_def truthy_def)
  qed
  have S: "snd (run p) =
      (case verdict p of
         None \<Rightarrow> db
       | Some t \<Rightarrow>
           (case db of
              None \<Rightarrow> None
            | Some store \<Rightarrow>
                if truth store = Inr True \<and> (is_invalid_user t \<or> is_blocked t) \<and>
                   delete_error store = None
                then Some (store\<lparr>customers := remove1 user_id (customers store)\<rparr>)
                else Some store))" for p
  proof (cases "verdict p")
    case None
    then show ?thesis using unanswered [of p] by simp
  next
    case (Some t)
    from refused [OF Some] obtain response result where
      r: "p request = Inr response" "json response = Inr result" "ok result \<noteq> Some True"
      "error_description result = t"
      by blast
    show ?thesis
      using refused_outcome(2) [where client = p and db = db and user_id = user_id
          and order_id = order_id and st = st and reason = reason and slot = slot,
          OF assms r(1) [unfolded request_def] r(2,3)]
      unfolding Some r(4) [symmetric] by (simp add: run_def)
  qed
  have V: "verdict (with_error_code c client) = verdict client"
    by (auto simp: verdict_def with_error_code_def error_description_code split: sum.splits)
  have D: "(DeleteOne u \<in> set (fst (run client))) =
      (u = user_id \<and> truthy \<and> (\<exists>t. verdict client = Some t \<and> (is_invalid_user t \<or> is_blocked t)))"
    for u
    unfolding delete_in_calls [of u "fst (run client)"] K [of client]
    by (auto split: option.splits)
  have W: "(\<exists>t. verdict client = Some t \<and> (is_invalid_user t \<or> is_blocked t)) =
      (case client request of
              Inl e \<Rightarrow> False
            | Inr response \<Rightarrow>
                (case json response of
                   Inl e \<Rightarrow> False
                 | Inr result \<Rightarrow>
                     ok result \<noteq> Some True \<and>
                     (is_invalid_user (error_description result) \<or>
                      is_blocked (error_description result))))"
    by (auto simp: verdict_def split: sum.splits)
  have c1: "(DeleteOne u \<in> set (fst (run client))) =
          (u = user_id \<and> (\<exists>store. db = Some store \<and> truth store = Inr True) \<and>
           (case client request of
              Inl e \<Rightarrow> False
            | Inr response \<Rightarrow>
                (case json response of
                   Inl e \<Rightarrow> False
                 | Inr result \<Rightarrow>
                     ok result \<noteq> Some True \<and>
                     (is_invalid_user (error_description result) \<or>
                      is_blocked (error_description result)))))"
    unfolding D W [symmetric] truthy_def ..
  have c4: "calls (fst (run (with_error_code c client))) = calls (fst (run client))"
    unfolding K V ..
  have c5: "snd (run (with_error_code c client)) = snd (run client)"
    unfolding S V ..
  have c6: "snd (run client) = db" if "DeleteOne user_id \<notin> set (fst (run client))"
    using that unfolding D S [of client] truthy_def
    by (auto split: option.splits)
  have c7: "snd (run client) = Some (store\<lparr>customers := remove1 user_id (customers store)\<rparr>)"
    if "db = Some store \<and> delete_error store = None \<and>
        DeleteOne user_id \<in> set (fst (run client))" for store
    using that unfolding D S [of client] truthy_def
    by (auto split: option.splits)
  have c8: "snd (run client) = db \<and>
      last (fst (run client)) =
        Log ERROR (prune_failed_head @ str_int user_id @ ascii '', order_id='' @
                   order_id @ ascii '', error='' @ exc_str e)"
    if h: "db = Some store \<and> delete_error store = Some e \<and>
        DeleteOne user_id \<in> set (fst (run client))" for store e
  proof -
    from h obtain t where t: "verdict client = Some t" "is_invalid_user t \<or> is_blocked t"
      and tr: "truth store = Inr True"
      unfolding D truthy_def by auto
    from refused [OF t(1)] obtain response result where
      r: "client request = Inr response" "json response = Inr result" "ok result \<noteq> Some True"
      "error_description result = t"
      by blast
    have "last (fst (run client)) =
        Log ERROR (prune_failed_head @ str_int user_id @ ascii '', order_id='' @
                   order_id @ ascii '', error='' @ exc_str e)"
      unfolding run_def
      by (rule refused_outcome(4) [where client = client and db = db and user_id = user_id
          and order_id = order_id and st = st and reason = reason and slot = slot
          and store = store and e = e,
          OF assms r(1) [unfolded request_def] r(2,3)])
        (use h tr t(2) r(4) in simp_all)
    moreover have "snd (run client) = db"
      using h unfolding S [of client] t(1) by simp
    ultimately show ?thesis by simp
  qed
  have c9: "calls (fst (run client)) = [Post request] \<and> snd (run client) = db \<and>
           last (fst (run client)) = customer_send_failed e user_id order_id st"
    if h: "db = Some store \<and> truth store = Inl e \<and> client request = Inr response \<and>
           json response = Inr result \<and> ok result \<noteq> Some True" for store e response result
  proof -
    have v: "verdict client = Some (error_description result)"
      using h by (simp add: verdict_def)
    have nt: "\<not> truthy"
      using h by (simp add: truthy_def)
    have 1: "calls (fst (run client)) = [Post request]"
      unfolding K [of client] v using nt by simp
    have 2: "snd (run client) = db"
      unfolding S [of client] v using h by simp
    have r1: "client (JsonPost (api_url token ''sendMessage'') user_id
                   (customer_message order_id st reason slot) None) = Inr response"
      using h by (simp add: request_def)
    have 3: "last (fst (run client)) = customer_send_failed e user_id order_id st"
      using refused_outcome(3) [where client = client and db = db and user_id = user_id
          and order_id = order_id and st = st and reason = reason and slot = slot
          and store = store and e = e, OF assms r1] h
      by (simp add: run_def)
    show ?thesis using 1 2 3 by simp
  qed
  show ?thesis
    unfolding Let_def request_def [symmetric] run_def [symmetric]
    apply (intro conjI allI impI)
    subgoal by (rule c1)
    subgoal by (rule is_invalid_user_iff)
    subgoal by (rule is_blocked_iff)
    subgoal by (rule c4)
    subgoal by (rule c5)
    subgoal by (rule c6)
    subgoal by (rule c7)
    subgoal by (rule c8 [THEN conjunct1])
    subgoal by (rule c8 [THEN conjunct2])
    subgoal by (rule c9 [THEN conjunct1])
    subgoal by (rule c9 [THEN conjunct2, THEN conjunct1])
    subgoal by (rule c9 [THEN conjunct2, THEN conjunct2])
    done
qed

theorem pruning_needs_truthy_handle_witness:
  "DeleteOne 42 \<in> set (fst (notify_customer_order_status one_admin blocked_403 (Some registry_up)
      42 order_ref status_accepted None None)) \<and>
   snd (notify_customer_order_status one_admin blocked_403 (Some registry_up)
      42 order_ref status_accepted None None) =
     Some \<lparr>truth = Inr True, customers = [7], delete_error = None\<rparr> \<and>
   DeleteOne 42 \<notin> set (fst (notify_customer_order_status one_admin rate_limited_429
      (Some registry_up) 42 order_ref status_accepted None None)) \<and>
   snd (notify_customer_order_status one_admin rate_limited_429 (Some registry_up)
      42 order_ref status_accepted None None) = Some registry_up \<and>
   DeleteOne 42 \<notin> set (fst (notify_customer_order_status one_admin blocked_403 None
      42 order_ref status_accepted None None)) \<and>
   DeleteOne 42 \<notin> set (fst (notify_customer_order_status one_admin
      (\<lambda>r. Inl (TimeoutException (ascii ''timed out''))) (Some registry_up)
      42 order_ref status_accepted None None)) \<and>
   last (fst (notify_customer_order_status one_admin blocked_403 (Some registry_down)
      42 order_ref status_accepted None None)) =
     Log ERROR (prune_failed_head @ ascii ''42, order_id='' @ order_ref @
                ascii '', error=connection closed'') \<and>
   snd (notify_customer_order_status one_admin blocked_403 (Some registry_down)
      42 order_ref status_accepted None None) = Some registry_down \<and>
   DeleteOne 42 \<notin> set (fst (notify_customer_order_status one_admin blocked_403
      (Some registry_motor) 42 order_ref status_accepted None None)) \<and>
   calls (fst (notify_customer_order_status one_admin blocked_403
      (Some registry_motor) 42 order_ref status_accepted None None)) =
     [Post (JsonPost (api_url (ascii ''T'') ''sendMessage'') 42
        (customer_message order_ref status_accepted None None) None)] \<and>
   snd (notify_customer_order_status one_admin blocked_403 (Some registry_motor)
      42 order_ref status_accepted None None) = Some registry_motor \<and>
   last (fst (notify_customer_order_status one_admin blocked_403 (Some registry_motor)
      42 order_ref status_accepted None None)) =
     Log ERROR (exception_head @
                ascii ''NotImplementedError: Database objects do not implement truth value testing or bool(), user_id=42, order_id='' @
                order_ref @ ascii '', status='' @ status_accepted)"
proof -
  note t = pruning_needs_truthy_handle [OF one_admin_token, unfolded Let_def]
  have s42: "str_int 42 = ascii ''42''" by code_simp
  have a: "DeleteOne 42 \<in> set (fst (notify_customer_order_status one_admin blocked_403
      (Some registry_up) 42 order_ref status_accepted None None))"
    using t [THEN conjunct1, of 42 blocked_403 "Some registry_up" 42 order_ref status_accepted
        None None]
    by (simp add: scenario_answers blocked_403_classified registry_up_def)
  have b: "snd (notify_customer_order_status one_admin blocked_403 (Some registry_up)
      42 order_ref status_accepted None None) =
      Some \<lparr>truth = Inr True, customers = [7], delete_error = None\<rparr>"
    using a t [THEN conjunct2, THEN conjunct2, THEN conjunct2, THEN conjunct2, THEN conjunct2,
        THEN conjunct2, THEN conjunct1, rule_format,
        of "Some registry_up" registry_up 42 blocked_403 order_ref status_accepted None None]
    by (simp add: registry_up_def)
  have c: "DeleteOne 42 \<notin> set (fst (notify_customer_order_status one_admin rate_limited_429
      (Some registry_up) 42 order_ref status_accepted None None))"
    using t [THEN conjunct1, of 42 rate_limited_429 "Some registry_up" 42 order_ref
        status_accepted None None]
    by (simp add: scenario_answers rate_limit_unclassified)
  have d: "snd (notify_customer_order_status one_admin rate_limited_429 (Some registry_up)
      42 order_ref status_accepted None None) = Some registry_up"
    using c t [THEN conjunct2, THEN conjunct2, THEN conjunct2, THEN conjunct2, THEN conjunct2,
        THEN conjunct1, rule_format,
        of 42 rate_limited_429 "Some registry_up" order_ref status_accepted None None]
    by simp
  have e: "DeleteOne 42 \<notin> set (fst (notify_customer_order_status one_admin blocked_403 None
      42 order_ref status_accepted None None))"
    using t [THEN conjunct1, of 42 blocked_403 None 42 order_ref status_accepted None None]
    by simp
  have f: "DeleteOne 42 \<notin> set (fst (notify_customer_order_status one_admin
      (\<lambda>r. Inl (TimeoutException (ascii ''timed out''))) (Some registry_up)
      42 order_ref status_accepted None None))"
    using t [THEN conjunct1, of 42 "\<lambda>r. Inl (TimeoutException (ascii ''timed out''))"
        "Some registry_up" 42 order_ref status_accepted None None]
    by simp
  have g: "DeleteOne 42 \<in> set (fst (notify_customer_order_status one_admin blocked_403
      (Some registry_down) 42 order_ref status_accepted None None))"
    using t [THEN conjunct1, of 42 blocked_403 "Some registry_down" 42 order_ref
        status_accepted None None]
    by (simp add: scenario_answers blocked_403_classified registry_down_def)
  have h: "last (fst (notify_customer_order_status one_admin blocked_403 (Some registry_down)
      42 order_ref status_accepted None None)) =
     Log ERROR (prune_failed_head @ ascii ''42, order_id='' @ order_ref @
                ascii '', error=connection closed'') \<and>
   snd (notify_customer_order_status one_admin blocked_403 (Some registry_down)
      42 order_ref status_accepted None None) = Some registry_down"
    using g t [THEN conjunct2, THEN conjunct2, THEN conjunct2, THEN conjunct2, THEN conjunct2,
        THEN conjunct2, THEN conjunct2, THEN conjunct1, rule_format,
        of "Some registry_down" registry_down
          "OtherError (ascii ''AutoReconnect'') (ascii ''connection closed'')"
          42 blocked_403 order_ref status_accepted None None]
    by (simp add: registry_down_def s42) (simp add: ascii_def)
  have i: "DeleteOne 42 \<notin> set (fst (notify_customer_order_status one_admin blocked_403
      (Some registry_motor) 42 order_ref status_accepted None None))"
    using t [THEN conjunct1, of 42 blocked_403 "Some registry_motor" 42 order_ref
        status_accepted None None]
    by (simp add: registry_motor_def)
  have j: "calls (fst (notify_customer_order_status one_admin blocked_403
      (Some registry_motor) 42 order_ref status_accepted None None)) =
     [Post (JsonPost (api_url (ascii ''T'') ''sendMessage'') 42
        (customer_message order_ref status_accepted None None) None)] \<and>
   snd (notify_customer_order_status one_admin blocked_403 (Some registry_motor)
      42 order_ref status_accepted None None) = Some registry_motor \<and>
   last (fst (notify_customer_order_status one_admin blocked_403 (Some registry_motor)
      42 order_ref status_accepted None None)) =
     customer_send_failed no_truth_test 42 order_ref status_accepted"
    using t [THEN conjunct2, THEN conjunct2, THEN conjunct2, THEN conjunct2, THEN conjunct2,
        THEN conjunct2, THEN conjunct2, THEN conjunct2, rule_format,
        of "Some registry_motor" registry_motor no_truth_test blocked_403 42 order_ref
          status_accepted None None
          "answer 403 False (Some 403) (Some (ascii ''Forbidden: bot was blocked by the user''))"
          "\<lparr>ok = Some False, error_code = Some 403,
            description = Some (ascii ''Forbidden: bot was blocked by the user'')\<rparr>"]
    by (simp add: registry_motor_def scenario_answers)
  have k: "customer_send_failed no_truth_test 42 order_ref status_accepted =
     Log ERROR (exception_head @
                ascii ''NotImplementedError: Database objects do not implement truth value testing or bool(), user_id=42, order_id='' @
                order_ref @ ascii '', status='' @ status_accepted)"
    by (simp add: customer_send_failed_def no_truth_test_def s42 Let_def) (simp add: ascii_def)
  show ?thesis
    apply (intro conjI)
    subgoal by (rule a)
    subgoal by (rule b)
    subgoal by (rule c)
    subgoal by (rule d)
    subgoal by (rule e)
    subgoal by (rule f)
    subgoal by (rule h [THEN conjunct1])
    subgoal by (rule h [THEN conjunct2])
    subgoal by (rule i)
    subgoal by (rule j [THEN conjunct1])
    subgoal by (rule j [THEN conjunct2, THEN conjunct1])
    subgoal using j [THEN conjunct2, THEN conjunct2] unfolding k .
    done
qed

section \<open>Delivery to one administrator\<close>




lemma posts_append: "posts (xs @ ys) = posts xs @ posts ys"
  by (induction xs rule: posts.induct) simp_all

lemma send_file_absent:
  "send_file client token admin_id message None f c = ([], False)"
  by (simp add: send_file_def truthy_opt_def)


lemma text_call:
  "posts (fst (send_notification_with_receipt client token admin_id message d f c)) =
     posts (fst (send_file client token admin_id message d f c)) @
     (if snd (send_file client token admin_id message d f c) then []
      else [JsonPost (api_url token ''sendMessage'') admin_id message None]) \<and>
   snd (send_notification_with_receipt client token admin_id message d f c) =
     (snd (send_file client token admin_id message d f c) \<or>
      reports_ok client (JsonPost (api_url token ''sendMessage'') admin_id message None))"
  by (auto simp: send_notification_with_receipt_def Let_def reports_ok_def posts_append
      split: prod.splits sum.splits)










section \<open>The fan-out to the administrators\<close>

lemma failed_count:
  "length xs - length (filter P xs) = length (filter (\<lambda>a. \<not> P a) xs)"
  using sum_length_filter_compl [of P xs] by simp

lemma some_failed:
  "(length (filter P xs) < length xs) = (filter (\<lambda>a. \<not> P a) xs \<noteq> [])"
  using sum_length_filter_compl [of P xs] by (cases "filter (\<lambda>a. \<not> P a) xs") auto

lemma aggregate_not_recipient_line:
  "new_order_aggregate oid k \<noteq> Log ERROR (send_error_head @ x)"
  "accepted_aggregate oid k \<noteq> Log ERROR (send_error_head @ x)"
  "accepted_aggregate oid k \<noteq> Log ERROR (file_http_error_head @ x)"
  "accepted_aggregate oid k \<noteq> Log ERROR (file_exception_head @ x)"
  by (simp_all add: new_order_aggregate_def accepted_aggregate_def new_order_failed_head_def
      accepted_failed_head_def send_error_head_def file_http_error_head_def
      file_exception_head_def ascii_def)









lemma send_file_shape:
  "fst (send_file client token a message d f c) = [] \<and>
     \<not> snd (send_file client token a message d f c) \<or>
   (\<exists>u fld ft. fst (send_file client token a message d f c) =
        [Post (MultipartPost u fld ft (str_int a) message)]) \<or>
   (\<exists>u fld ft x. fst (send_file client token a message d f c) =
        [Post (MultipartPost u fld ft (str_int a) message),
         Log ERROR (file_http_error_head @ x)] \<and>
        \<not> snd (send_file client token a message d f c)) \<or>
   (\<exists>u fld ft x. fst (send_file client token a message d f c) =
        [Post (MultipartPost u fld ft (str_int a) message),
         Log ERROR (file_exception_head @ x)] \<and>
        \<not> snd (send_file client token a message d f c))"
  by (auto simp: send_file_def Let_def split: prod.splits sum.splits exc.splits)

lemma with_receipt_events:
  "\<exists>tail. fst (send_notification_with_receipt client token a message d f c) =
     fst (send_file client token a message d f c) @ tail \<and>
     (snd (send_file client token a message d f c) \<longrightarrow> tail = []) \<and>
     (\<not> snd (send_file client token a message d f c) \<longrightarrow>
        tail = [Post (JsonPost (api_url token ''sendMessage'') a message None)] \<or>
        (\<exists>x. tail = [Post (JsonPost (api_url token ''sendMessage'') a message None),
                     Log ERROR (send_error_head @ x)]))"
  by (auto simp: send_notification_with_receipt_def Let_def split: prod.splits sum.splits)

lemma with_receipt_no_aggregate:
  "accepted_aggregate oid k \<notin> set (fst (send_notification_with_receipt client token a message d f c))"
proof -
  obtain tail where t: "fst (send_notification_with_receipt client token a message d f c) =
     fst (send_file client token a message d f c) @ tail"
    and t': "tail = [] \<or> tail = [Post (JsonPost (api_url token ''sendMessage'') a message None)] \<or>
        (\<exists>x. tail = [Post (JsonPost (api_url token ''sendMessage'') a message None),
                     Log ERROR (send_error_head @ x)])"
    using with_receipt_events [of client token a message d f c] by blast
  have 1: "accepted_aggregate oid k \<notin> set tail"
    using t' aggregate_not_recipient_line(2) [of oid k]
    by (auto simp: accepted_aggregate_def)
  have 2: "accepted_aggregate oid k \<notin> set (fst (send_file client token a message d f c))"
    using send_file_shape [of client token a message d f c]
      aggregate_not_recipient_line(3,4) [of oid k]
    by (auto simp: accepted_aggregate_def)
  show ?thesis unfolding t using 1 2 by simp
qed

lemma with_receipt_addressed:
  "posts (fst (send_notification_with_receipt client token a message d f c)) \<noteq> [] \<and>
   list_all (addressed_to a) (posts (fst (send_notification_with_receipt client token a message d f c)))"
proof -
  obtain tail where t: "fst (send_notification_with_receipt client token a message d f c) =
     fst (send_file client token a message d f c) @ tail"
    and t1: "snd (send_file client token a message d f c) \<longrightarrow> tail = []"
    and t2: "\<not> snd (send_file client token a message d f c) \<longrightarrow>
        tail = [Post (JsonPost (api_url token ''sendMessage'') a message None)] \<or>
        (\<exists>x. tail = [Post (JsonPost (api_url token ''sendMessage'') a message None),
                     Log ERROR (send_error_head @ x)])"
    using with_receipt_events [of client token a message d f c] by blast
  show ?thesis
    unfolding t posts_append
    using send_file_shape [of client token a message d f c] t1 t2
    by (auto simp: addressed_to_def)
qed


lemma accepted_unfold:
  assumes "telegram_bot_token settings = Some token" "token \<noteq> []" "admin_ids settings \<noteq> []"
  shows "notify_admin_order_accepted py_sum settings client find_one fs_get order_id customer_name
           customer_phone delivery_address total_amount items receipt_file_id slot =
     concat (map (\<lambda>item. fst (item_detail find_one item)) items) @
     fst (fetch_receipt fs_get receipt_file_id) @
     concat (map (\<lambda>a. fst (accepted_delivery client token fs_get receipt_file_id
                               (accepted_text py_sum find_one order_id customer_name customer_phone
                                  delivery_address total_amount items slot) a))
               (admin_ids settings)) @
     (if 0 < length (filter (\<lambda>a. \<not> snd (accepted_delivery client token fs_get receipt_file_id
                               (accepted_text py_sum find_one order_id customer_name customer_phone
                                  delivery_address total_amount items slot) a))
                       (admin_ids settings))
      then [accepted_aggregate order_id
              (length (filter (\<lambda>a. \<not> snd (accepted_delivery client token fs_get receipt_file_id
                               (accepted_text py_sum find_one order_id customer_name customer_phone
                                  delivery_address total_amount items slot) a))
                         (admin_ids settings)))]
      else [])"
  using assms
  by (simp add: notify_admin_order_accepted_def Let_def comp_def accepted_aggregate_def
      failed_count some_failed filter_map accepted_delivery_def accepted_text_def
      split: prod.splits)

lemma count_one_aggregate:
  assumes "\<And>x. x \<in> set batch \<Longrightarrow> x \<noteq> agg"
  shows "count_list (batch @ (if 0 < n then [agg] else [])) agg = (if 0 < n then 1 else 0)"
proof -
  have "count_list batch agg = 0"
    using assms by (induction batch) auto
  then show ?thesis by simp
qed


lemma item_detail_events: "x \<in> set (fst (item_detail find_one item)) \<Longrightarrow> \<exists>p. x = FindOne p"
  by (auto simp: item_detail_def Let_def split: field.splits bool.splits if_splits)

lemma fetch_receipt_events: "x \<in> set (fst (fetch_receipt fs_get rid)) \<Longrightarrow> \<exists>r. x = GridFsGet r"
  by (auto simp: fetch_receipt_def split: option.splits if_splits)

lemma accepted_delivery_no_aggregate:
  "accepted_aggregate oid k \<notin> set (fst (accepted_delivery client token fs_get rid message a))"
  by (simp add: accepted_delivery_def with_receipt_no_aggregate split: prod.splits)

lemma accepted_delivery_addressed:
  "posts (fst (accepted_delivery client token fs_get rid message a)) \<noteq> [] \<and>
   list_all (addressed_to a) (posts (fst (accepted_delivery client token fs_get rid message a)))"
  using with_receipt_addressed
  by (simp add: accepted_delivery_def split: prod.splits)


lemma accepted_part:
  fixes py_sum settings client token find_one fs_get order_id customer_name customer_phone
    delivery_address total_amount items receipt_file_id slot
  assumes "telegram_bot_token settings = Some token" "token \<noteq> []" "admin_ids settings \<noteq> []"
  defines "send \<equiv> accepted_delivery client token fs_get receipt_file_id
                     (accepted_text py_sum find_one order_id customer_name customer_phone
                        delivery_address total_amount items slot)"
  defines "failed \<equiv> length (filter (\<lambda>a. \<not> snd (send a)) (admin_ids settings))"
  defines "trace \<equiv> notify_admin_order_accepted py_sum settings client find_one fs_get order_id
                      customer_name customer_phone delivery_address total_amount items
                      receipt_file_id slot"
  shows "trace = concat (map (\<lambda>item. fst (item_detail find_one item)) items) @
                 fst (fetch_receipt fs_get receipt_file_id) @
                 concat (map (\<lambda>a. fst (send a)) (admin_ids settings)) @
                 (if 0 < failed then [accepted_aggregate order_id failed] else [])"
    and "count_list trace (accepted_aggregate order_id failed) = (if 0 < failed then 1 else 0)"
    and "accepted_aggregate order_id k \<in> set trace \<Longrightarrow>
           0 < failed \<and> accepted_aggregate order_id k = accepted_aggregate order_id failed"
proof -
  define batch where "batch = concat (map (\<lambda>item. fst (item_detail find_one item)) items) @
                 fst (fetch_receipt fs_get receipt_file_id) @
                 concat (map (\<lambda>a. fst (send a)) (admin_ids settings))"
  show t0: "trace = concat (map (\<lambda>item. fst (item_detail find_one item)) items) @
                 fst (fetch_receipt fs_get receipt_file_id) @
                 concat (map (\<lambda>a. fst (send a)) (admin_ids settings)) @
                 (if 0 < failed then [accepted_aggregate order_id failed] else [])"
    unfolding trace_def failed_def send_def by (rule accepted_unfold [OF assms(1-3)])
  then have t: "trace = batch @ (if 0 < failed then [accepted_aggregate order_id failed] else [])"
    by (simp add: batch_def)
  have b: "x \<noteq> accepted_aggregate order_id j" if "x \<in> set batch" for x j
    using that accepted_delivery_no_aggregate [of order_id j client token fs_get receipt_file_id]
      item_detail_events [of x find_one] fetch_receipt_events [of x fs_get receipt_file_id]
    by (auto simp: batch_def send_def accepted_aggregate_def)
  show "count_list trace (accepted_aggregate order_id failed) = (if 0 < failed then 1 else 0)"
    unfolding t by (rule count_one_aggregate) (rule b)
  show "0 < failed \<and> accepted_aggregate order_id k = accepted_aggregate order_id failed"
    if "accepted_aggregate order_id k \<in> set trace"
    using that b [of "accepted_aggregate order_id k" k] unfolding t
    by (auto split: if_splits)
qed




lemma two_admins_token:
  "telegram_bot_token two_admins = Some (ascii ''T'')" "ascii ''T'' \<noteq> []"
  "admin_ids two_admins \<noteq> []" "admin_ids two_admins = [7, 8]"
  by (simp_all add: two_admins_def ascii_def)







section \<open>Enrichment failures\<close>

lemma posts_concat: "posts (concat xss) = concat (map posts xss)"
  by (induction xss) (simp_all add: posts_append)

lemma posts_of_reads:
  "(\<And>x. x \<in> set es \<Longrightarrow> (\<exists>p. x = FindOne p) \<or> (\<exists>r. x = GridFsGet r)) \<Longrightarrow> posts es = []"
  by (induction es rule: posts.induct) auto

lemma posts_lookup: "posts (fst (item_detail find_one item)) = []"
  by (rule posts_of_reads) (auto dest: item_detail_events)

lemma posts_fetch: "posts (fst (fetch_receipt fs_get rid)) = []"
  by (rule posts_of_reads) (auto dest: fetch_receipt_events)

lemma accepted_posts:
  assumes "telegram_bot_token settings = Some token" "token \<noteq> []" "admin_ids settings \<noteq> []"
  shows "posts (notify_admin_order_accepted py_sum settings client find_one fs_get order_id customer_name
           customer_phone delivery_address total_amount items receipt_file_id slot) =
     concat (map (\<lambda>a. posts (fst (accepted_delivery client token fs_get receipt_file_id
                               (accepted_text py_sum find_one order_id customer_name customer_phone
                                  delivery_address total_amount items slot) a)))
               (admin_ids settings))"
  unfolding accepted_part(1) [OF assms]
  by (simp add: posts_append posts_concat posts_lookup posts_fetch comp_def
      accepted_aggregate_def)

lemma with_receipt_carries:
  "list_all (carries message)
     (posts (fst (send_notification_with_receipt client token a message d f c)))"
proof -
  obtain tail where t: "fst (send_notification_with_receipt client token a message d f c) =
     fst (send_file client token a message d f c) @ tail"
    and t': "tail = [] \<or> tail = [Post (JsonPost (api_url token ''sendMessage'') a message None)] \<or>
        (\<exists>x. tail = [Post (JsonPost (api_url token ''sendMessage'') a message None),
                     Log ERROR (send_error_head @ x)])"
    using with_receipt_events [of client token a message d f c] by blast
  show ?thesis
    unfolding t posts_append
    using send_file_shape [of client token a message d f c] t'
    by (auto simp: carries_def)
qed

lemma accepted_delivery_carries:
  "list_all (carries message) (posts (fst (accepted_delivery client token fs_get rid message a)))"
  by (simp add: accepted_delivery_def with_receipt_carries split: prod.splits)

lemma accepted_delivery_text_only:
  "fst (snd (fetch_receipt fs_get rid)) = None \<Longrightarrow>
   posts (fst (accepted_delivery client token fs_get rid message a)) =
     [JsonPost (api_url token ''sendMessage'') a message None]"
  using text_call [of client token a message None]
  by (auto simp: accepted_delivery_def send_file_absent split: prod.splits)

lemma fetch_failure_sentinel:
  "receipt_file_id = Some ref \<Longrightarrow>
   (\<exists>e. fs_get ref = Inl e) \<or>
   (\<exists>gf. fs_get ref = Inr gf \<and> ((\<exists>e. read gf = Inl e) \<or> read gf = Inr [])) \<Longrightarrow>
   fst (snd (fetch_receipt fs_get receipt_file_id)) = None"
  by (auto simp: fetch_receipt_def)

lemma lookup_failure_blank:
  "FindOne p \<in> set (fst (item_detail find_one item)) \<Longrightarrow> find_one p = Inl e \<Longrightarrow>
   snd (item_detail find_one item) =
     (get_or (product_name item) default_product_name, [], get_or (quantity item) 1)"
  by (auto simp: item_detail_def Let_def truthy_def
      split: field.splits bool.splits if_splits)


lemma list_all_concat: "list_all P (concat xss) = list_all (list_all P) xss"
  by (induction xss) simp_all

lemma tea_variant_lookup:
  "fst (item_detail find_one tea_variant) = [FindOne (ascii ''p1'')]"
  by (simp add: item_detail_def tea_variant_def get_or_def truthy_def Let_def ascii_def)

text \<open>
  C5. In the accepted-order notification (credential set, at least one administrator) the
  enrichment failures are swallowed. When the receipt reference is given and the blob store
  raises (a missing entry or any other exception), or the read raises, or the content is
  empty, the receipt data is the no-attachment sentinel \<open>None\<close>; then every administrator is
  sent exactly the plain text message. When a variant-name lookup is made and raises, the
  variant name is left blank, and the product name and quantity are those of the item. In
  all cases a request is sent, and every request carries the composed message, as text or
  as caption; the message is a function of the order and the catalogue, not of the blob
  store or of the provider.
\<close>

theorem enrichment_failures_swallowed:
  assumes "telegram_bot_token settings = Some token" and "token \<noteq> []"
    and "admin_ids settings \<noteq> []"
  shows
    "let message = accepted_text py_sum find_one order_id customer_name customer_phone delivery_address
                     total_amount items slot;
         trace = notify_admin_order_accepted py_sum settings client find_one fs_get order_id
                   customer_name customer_phone delivery_address total_amount items
                   receipt_file_id slot
     in (\<forall>ref. receipt_file_id = Some ref \<and>
               ((\<exists>e. fs_get ref = Inl e) \<or>
                (\<exists>gf. fs_get ref = Inr gf \<and> ((\<exists>e. read gf = Inl e) \<or> read gf = Inr []))) \<longrightarrow>
               fst (snd (fetch_receipt fs_get receipt_file_id)) = None) \<and>
        (fst (snd (fetch_receipt fs_get receipt_file_id)) = None \<longrightarrow>
           posts trace =
             map (\<lambda>a. JsonPost (api_url token ''sendMessage'') a message None)
               (admin_ids settings)) \<and>
        posts trace \<noteq> [] \<and>
        list_all (carries message) (posts trace) \<and>
        (\<forall>item p e. FindOne p \<in> set (fst (item_detail find_one item)) \<and> find_one p = Inl e \<longrightarrow>
           snd (item_detail find_one item) =
             (get_or (product_name item) default_product_name, [], get_or (quantity item) 1))"
proof -
  note p = accepted_posts [OF assms, of py_sum client find_one fs_get order_id customer_name
      customer_phone delivery_address total_amount items receipt_file_id slot]
  define message where "message = accepted_text py_sum find_one order_id customer_name customer_phone
    delivery_address total_amount items slot"
  define send where "send = accepted_delivery client token fs_get receipt_file_id message"
  have p': "posts (notify_admin_order_accepted py_sum settings client find_one fs_get order_id
      customer_name customer_phone delivery_address total_amount items receipt_file_id slot) =
      concat (map (\<lambda>a. posts (fst (send a))) (admin_ids settings))"
    unfolding p send_def message_def ..
  have 1: "fst (snd (fetch_receipt fs_get receipt_file_id)) = None"
    if "receipt_file_id = Some ref"
      "(\<exists>e. fs_get ref = Inl e) \<or>
       (\<exists>gf. fs_get ref = Inr gf \<and> ((\<exists>e. read gf = Inl e) \<or> read gf = Inr []))" for ref
    using that by (rule fetch_failure_sentinel)
  have 2: "concat (map (\<lambda>a. posts (fst (send a))) (admin_ids settings)) =
      map (\<lambda>a. JsonPost (api_url token ''sendMessage'') a message None) (admin_ids settings)"
    if "fst (snd (fetch_receipt fs_get receipt_file_id)) = None"
  proof -
    have "concat (map (\<lambda>a. posts (fst (send a))) xs) =
        map (\<lambda>a. JsonPost (api_url token ''sendMessage'') a message None) xs" for xs
      unfolding send_def using accepted_delivery_text_only [OF that, of client token message]
      by (induction xs) simp_all
    then show ?thesis .
  qed
  obtain a rest where ar: "admin_ids settings = a # rest"
    using assms(3) by (cases "admin_ids settings") auto
  have 3: "concat (map (\<lambda>a. posts (fst (send a))) (admin_ids settings)) \<noteq> []"
    unfolding ar send_def
    using accepted_delivery_addressed [of client token fs_get receipt_file_id message a]
    by simp
  have 4: "list_all (carries message)
      (concat (map (\<lambda>a. posts (fst (send a))) (admin_ids settings)))"
  proof -
    have "list_all (list_all (carries message)) (map (\<lambda>a. posts (fst (send a))) xs)" for xs
      unfolding send_def by (induction xs) (simp_all add: accepted_delivery_carries)
    then show ?thesis unfolding list_all_concat .
  qed
  have 5: "snd (item_detail find_one item) =
             (get_or (product_name item) default_product_name, [], get_or (quantity item) 1)"
    if "FindOne p \<in> set (fst (item_detail find_one item))" "find_one p = Inl e" for item p e
    using that by (rule lookup_failure_blank)
  show ?thesis
    unfolding Let_def message_def [symmetric] p'
    apply (intro conjI allI impI)
    subgoal for ref by (rule 1 [of ref]) (erule conjunct1, erule conjunct2)
    subgoal by (rule 2)
    subgoal by (rule 3)
    subgoal by (rule 4)
    subgoal for item p e by (rule 5 [of p item e]) (erule conjunct1, erule conjunct2)
    done
qed


theorem enrichment_failures_swallowed_witness:
  "fst (snd (fetch_receipt store_down (Some (ascii ''r1'')))) = None \<and>
   posts (notify_admin_order_accepted sum_plain two_admins always_ok catalogue_down store_down order_ref
            (ascii ''Aru'') (ascii ''+7 701 000 00 00'') (ascii ''Abay 1'') (PyInt 700) [tea_variant]
            (Some (ascii ''r1'')) (ascii ''13:00-14:00'')) =
     [JsonPost (api_url (ascii ''T'') ''sendMessage'') 7
        (accepted_text sum_plain catalogue_down order_ref (ascii ''Aru'') (ascii ''+7 701 000 00 00'')
           (ascii ''Abay 1'') (PyInt 700) [tea_variant] (ascii ''13:00-14:00'')) None,
      JsonPost (api_url (ascii ''T'') ''sendMessage'') 8
        (accepted_text sum_plain catalogue_down order_ref (ascii ''Aru'') (ascii ''+7 701 000 00 00'')
           (ascii ''Abay 1'') (PyInt 700) [tea_variant] (ascii ''13:00-14:00'')) None] \<and>
   snd (item_detail catalogue_down tea_variant) = (Val (ascii ''Tea''), [], Val 1)"
proof -
  note t = enrichment_failures_swallowed [OF two_admins_token(1-3), unfolded Let_def,
      where client = always_ok and order_id = order_ref and fs_get = store_down
        and receipt_file_id = "Some (ascii ''r1'')" and find_one = catalogue_down
        and customer_name = "ascii ''Aru''" and customer_phone = "ascii ''+7 701 000 00 00''"
        and delivery_address = "ascii ''Abay 1''" and total_amount = "PyInt 700" and py_sum = sum_plain
        and items = "[tea_variant]" and slot = "ascii ''13:00-14:00''"]
  have 1: "fst (snd (fetch_receipt store_down (Some (ascii ''r1'')))) = None"
    using t [THEN conjunct1, rule_format, of "ascii ''r1''"]
    by (simp add: store_down_def)
  have 2: "posts (notify_admin_order_accepted sum_plain two_admins always_ok catalogue_down store_down
            order_ref (ascii ''Aru'') (ascii ''+7 701 000 00 00'') (ascii ''Abay 1'') (PyInt 700)
            [tea_variant] (Some (ascii ''r1'')) (ascii ''13:00-14:00'')) =
     [JsonPost (api_url (ascii ''T'') ''sendMessage'') 7
        (accepted_text sum_plain catalogue_down order_ref (ascii ''Aru'') (ascii ''+7 701 000 00 00'')
           (ascii ''Abay 1'') (PyInt 700) [tea_variant] (ascii ''13:00-14:00'')) None,
      JsonPost (api_url (ascii ''T'') ''sendMessage'') 8
        (accepted_text sum_plain catalogue_down order_ref (ascii ''Aru'') (ascii ''+7 701 000 00 00'')
           (ascii ''Abay 1'') (PyInt 700) [tea_variant] (ascii ''13:00-14:00'')) None]"
    using t [THEN conjunct2, THEN conjunct1, rule_format, OF 1]
    by (simp add: two_admins_token(4))
  have 3: "snd (item_detail catalogue_down tea_variant) = (Val (ascii ''Tea''), [], Val 1)"
    using t [THEN conjunct2, THEN conjunct2, THEN conjunct2, THEN conjunct2, rule_format,
        of "ascii ''p1''" tea_variant]
    by (simp add: tea_variant_lookup catalogue_down_def) (simp add: tea_variant_def get_or_def)
  show ?thesis using 1 2 3 by blast
qed

end
